theory Spec2Isabelle
  imports Main
begin

unbundle bit_operations_syntax

section \<open>Python values, strings, bytes and exceptions\<close>

text \<open>
  A Python \<open>str\<close> is a sequence of Unicode code points, and \<open>len\<close> counts code points;
  a \<open>bytes\<close> object is a sequence of integers in \<open>range(256)\<close>. Both are lists of
  naturals here. \<open>ascii\<close> writes a string literal of the source as its code points.
\<close>

type_synonym str = "nat list"
type_synonym bytes = "nat list"

definition ascii :: "string \<Rightarrow> str" where
  "ascii s = map of_char s"

text \<open>
  The validators test the dynamic type of their argument with \<open>isinstance\<close>, so their
  arguments are dynamically typed values. \<open>bool\<close> is a subclass of \<open>int\<close> in Python
  (\<open>True\<close> is the integer 1), so a boolean is a \<open>PyInt\<close>. \<open>PyNone\<close> and \<open>PyBytes\<close>
  stand for the values that are neither \<open>str\<close> nor \<open>int\<close>. The arguments \<open>kind\<close> and
  \<open>amount_drops\<close>, whose type the source does not test, are strings as annotated.
\<close>

datatype pyval = PyNone | PyInt int | PyStr str | PyBytes bytes

text \<open>
  Exceptions are values. \<open>ValueError m c\<close> carries its message and its \<open>__cause__\<close>
  (\<open>raise ValueError(...) from exc\<close> sets the cause to \<open>exc\<close>). \<open>ValidationError\<close> is
  the class declared in validation.py; the other three are raised by Python built-ins.
\<close>

datatype exn =
    ValidationError str
  | ValueError str "exn option"
  | UnicodeEncodeError
  | TypeError
  | AttributeError

definition exn_bind :: "exn + 'a \<Rightarrow> ('a \<Rightarrow> exn + 'b) \<Rightarrow> exn + 'b" where
  "exn_bind r f = (case r of Inl e \<Rightarrow> Inl e | Inr x \<Rightarrow> f x)"

text \<open>\<open>str(n)\<close> for a non-negative integer: its decimal digits.\<close>

fun str_of_nat :: "nat \<Rightarrow> str" where
  "str_of_nat n = (if n < 10 then [48 + n] else str_of_nat (n div 10) @ [48 + n mod 10])"

declare str_of_nat.simps [simp del]

definition str_of_int :: "int \<Rightarrow> str" where
  "str_of_int i = (if i < 0 then 45 # str_of_nat (nat (- i)) else str_of_nat (nat i))"

text \<open>
  \<open>str.encode("utf-8")\<close>: one to four bytes per code point. Python refuses the
  surrogate code points U+D800..U+DFFF with UnicodeEncodeError; a \<open>str\<close> holds no code
  point above U+10FFFF.
\<close>

definition utf8_char :: "nat \<Rightarrow> exn + bytes" where
  "utf8_char c =
     (if c < 0x80 then Inr [c]
      else if c < 0x800 then Inr [0xC0 + c div 64, 0x80 + c mod 64]
      else if c < 0x10000 then
        (if 0xD800 \<le> c \<and> c \<le> 0xDFFF then Inl UnicodeEncodeError
         else Inr [0xE0 + c div 4096, 0x80 + c div 64 mod 64, 0x80 + c mod 64])
      else if c < 0x110000 then
        Inr [0xF0 + c div 262144, 0x80 + c div 4096 mod 64, 0x80 + c div 64 mod 64,
             0x80 + c mod 64]
      else Inl UnicodeEncodeError)"

fun encode_utf8 :: "str \<Rightarrow> exn + bytes" where
  "encode_utf8 [] = Inr []"
| "encode_utf8 (c # cs) =
     exn_bind (utf8_char c) (\<lambda>b. exn_bind (encode_utf8 cs) (\<lambda>bs. Inr (b @ bs)))"

text \<open>\<open>bytes.hex()\<close>: two lowercase hexadecimal digits per byte, nothing between them.\<close>

definition hex_digit :: "nat \<Rightarrow> nat" where
  "hex_digit d = (if d < 10 then 48 + d else 87 + d)"

fun hex :: "bytes \<Rightarrow> str" where
  "hex [] = []"
| "hex (b # bs) = hex_digit (b div 16) # hex_digit (b mod 16) # hex bs"

section \<open>validation.py\<close>

definition CID_PREFIXES :: "str list" where
  "CID_PREFIXES = [ascii ''bafk'', ascii ''bafy'']"

definition MAX_INT32 :: int where
  "MAX_INT32 = 2 ^ 31 - 1"

text \<open>\<open>s.startswith(prefixes)\<close> with a tuple of prefixes: one of them starts \<open>s\<close>.\<close>

definition startswith :: "str \<Rightarrow> str list \<Rightarrow> bool" where
  "startswith s ps = list_ex (\<lambda>p. take (length p) s = p) ps"

definition validate_cid :: "pyval \<Rightarrow> exn + unit" where
  "validate_cid cid =
     (case cid of
        PyStr s \<Rightarrow>
          if s = [] then Inl (ValidationError (ascii ''cid must be a non-empty string''))
          else if \<not> startswith s CID_PREFIXES \<or> length s < 20
            then Inl (ValidationError (ascii ''cid has unexpected format: '' @ s))
          else Inr ()
      | _ \<Rightarrow> Inl (ValidationError (ascii ''cid must be a non-empty string'')))"

text \<open>
  The character class \<open>[1-9A-HJ-NP-Za-km-z]\<close> of the address pattern, by code point,
  and \<open>re.fullmatch(r"r[1-9A-HJ-NP-Za-km-z]{24,34}", address)\<close>: the whole string is
  an \<open>r\<close> followed by 24 to 34 characters of the class.
\<close>

definition address_class :: "nat \<Rightarrow> bool" where
  "address_class c =
     (49 \<le> c \<and> c \<le> 57 \<or> 65 \<le> c \<and> c \<le> 72 \<or> 74 \<le> c \<and> c \<le> 78 \<or>
      80 \<le> c \<and> c \<le> 90 \<or> 97 \<le> c \<and> c \<le> 107 \<or> 109 \<le> c \<and> c \<le> 122)"

definition fullmatch_address :: "str \<Rightarrow> bool" where
  "fullmatch_address s =
     (case s of
        [] \<Rightarrow> False
      | c # cs \<Rightarrow> c = 114 \<and> 24 \<le> length cs \<and> length cs \<le> 34 \<and> list_all address_class cs)"

definition validate_xrp_address :: "pyval \<Rightarrow> exn + unit" where
  "validate_xrp_address address =
     (case address of
        PyStr s \<Rightarrow>
          if s = [] then Inl (ValidationError (ascii ''address must be a non-empty string''))
          else if \<not> fullmatch_address s
            then Inl (ValidationError (ascii ''invalid XRP address format: '' @ s))
          else Inr ()
      | _ \<Rightarrow> Inl (ValidationError (ascii ''address must be a non-empty string'')))"

definition validate_non_negative_int :: "pyval \<Rightarrow> str \<Rightarrow> exn + unit" where
  "validate_non_negative_int val name =
     (case val of
        PyInt v \<Rightarrow>
          if v < 0 then Inl (ValidationError (name @ ascii '' must be a non-negative integer''))
          else if v > MAX_INT32
            then Inl (ValidationError (name @ ascii '' must be <= '' @ str_of_int MAX_INT32))
          else Inr ()
      | _ \<Rightarrow> Inl (ValidationError (name @ ascii '' must be a non-negative integer'')))"

section \<open>pointer.py\<close>

definition POINTER_KIND :: "str \<rightharpoonup> int" where
  "POINTER_KIND = [ascii ''TASK_SUBMISSION'' \<mapsto> 6]"

text \<open>
  The loop of \<open>_encode_varint\<close>. It is entered only after the guard \<open>value < 0\<close> has
  raised, so its variable is a natural number, on which \<open>&\<close>, \<open>>>\<close> and \<open>|\<close> are
  \<open>AND\<close>, \<open>drop_bit\<close> and \<open>OR\<close>; \<open>out\<close> is the bytearray. (\<open>bytearray.append\<close>
  refuses a value of 256 or more; \<open>leb128_bytes\<close> below shows there is none.)
\<close>

function varint_loop :: "nat \<Rightarrow> bytes \<Rightarrow> bytes" where
  "varint_loop val out =
     (let to_write = val AND 0x7F; val' = drop_bit 7 val in
      if val' \<noteq> 0 then varint_loop val' (out @ [to_write OR 0x80])
      else out @ [to_write])"
  by pat_completeness auto
termination
  by (relation "measure fst") (auto simp: drop_bit_eq_div)

declare varint_loop.simps [simp del]

definition encode_varint :: "int \<Rightarrow> exn + bytes" where
  "encode_varint val =
     (if val < 0 then Inl (ValueError (ascii ''varint cannot be negative'') None)
      else Inr (varint_loop (nat val) []))"

definition encode_key :: "int \<Rightarrow> int \<Rightarrow> exn + bytes" where
  "encode_key field_number wire_type = encode_varint (push_bit 3 field_number OR wire_type)"

text \<open>
  \<open>_encode_string\<close> calls \<open>value.encode\<close>, which only a \<open>str\<close> has;
  \<open>_encode_varint_field\<close> compares \<open>value < 0\<close>, which only an integer supports.
\<close>

definition encode_string :: "int \<Rightarrow> pyval \<Rightarrow> exn + bytes" where
  "encode_string field_number val =
     (case val of
        PyStr s \<Rightarrow>
          exn_bind (encode_utf8 s) (\<lambda>encoded.
          exn_bind (encode_key field_number 2) (\<lambda>k.
          exn_bind (encode_varint (int (length encoded))) (\<lambda>n. Inr (k @ n @ encoded))))
      | _ \<Rightarrow> Inl AttributeError)"

definition encode_varint_field :: "int \<Rightarrow> pyval \<Rightarrow> exn + bytes" where
  "encode_varint_field field_number val =
     exn_bind (encode_key field_number 0) (\<lambda>k.
       case val of
         PyInt v \<Rightarrow> exn_bind (encode_varint v) (\<lambda>n. Inr (k @ n))
       | _ \<Rightarrow> Inl TypeError)"

text \<open>\<open>except ValidationError as exc: raise ValueError(str(exc)) from exc\<close>\<close>

definition reraise_ValueError :: "exn + 'a \<Rightarrow> exn + 'a" where
  "reraise_ValueError r =
     (case r of
        Inl (ValidationError m) \<Rightarrow> Inl (ValueError m (Some (ValidationError m)))
      | _ \<Rightarrow> r)"

definition encode_pointer_memo :: "pyval \<Rightarrow> str \<Rightarrow> pyval \<Rightarrow> pyval \<Rightarrow> pyval \<Rightarrow> exn + bytes" where
  "encode_pointer_memo cid kind schema flags unknown8 =
     (case POINTER_KIND kind of
        None \<Rightarrow> Inl (ValueError (ascii ''Unknown pointer kind: '' @ kind) None)
      | Some code \<Rightarrow>
          exn_bind
            (reraise_ValueError
              (exn_bind (validate_cid cid) (\<lambda>_.
               exn_bind (validate_non_negative_int schema (ascii ''schema'')) (\<lambda>_.
               exn_bind (validate_non_negative_int flags (ascii ''flags'')) (\<lambda>_.
               if unknown8 \<noteq> PyNone
               then validate_non_negative_int unknown8 (ascii ''unknown8'')
               else Inr ())))))
            (\<lambda>_.
              exn_bind (encode_string 1 cid) (\<lambda>f1.
              exn_bind (encode_varint_field 2 schema) (\<lambda>f2.
              exn_bind (encode_varint_field 3 (PyInt code)) (\<lambda>f3.
              exn_bind (encode_varint_field 4 flags) (\<lambda>f4.
              if unknown8 \<noteq> PyNone
              then exn_bind (encode_varint_field 8 unknown8) (\<lambda>f8.
                     Inr (f1 @ f2 @ f3 @ f4 @ f8))
              else Inr (f1 @ f2 @ f3 @ f4)))))))"

section \<open>transaction.py\<close>

definition DEFAULT_DESTINATION :: pyval where
  "DEFAULT_DESTINATION = PyStr (ascii ''rwdm72S9YVKkZjeADKU2bbUMuY4vPnSfH7'')"

definition DEFAULT_MEMO_TYPE :: str where
  "DEFAULT_MEMO_TYPE = ascii ''pf.ptr''"

definition DEFAULT_AMOUNT_DROPS :: str where
  "DEFAULT_AMOUNT_DROPS = ascii ''1''"

definition MAX_MEMO_BYTES :: nat where
  "MAX_MEMO_BYTES = 1024"

text \<open>
  \<open>str.isdigit\<close> and \<open>int\<close> read the Unicode character database of the Python
  runtime, which is not part of the repository: it is a parameter. \<open>to_digit\<close> is the
  digit value of a code point (Python's \<open>unicodedata.digit\<close>), \<open>to_decimal\<close> its decimal
  value (\<open>unicodedata.decimal\<close>); \<open>None\<close> where the character has none.
\<close>

record unicode_db =
  to_digit :: "nat \<Rightarrow> nat option"
  to_decimal :: "nat \<Rightarrow> nat option"

text \<open>\<open>s.isdigit()\<close>: at least one character, and every character has a digit value.\<close>

definition isdigit :: "unicode_db \<Rightarrow> str \<Rightarrow> bool" where
  "isdigit U s = (s \<noteq> [] \<and> list_all (\<lambda>c. to_digit U c \<noteq> None) s)"

text \<open>
  \<open>int(s)\<close> on a string that passed \<open>isdigit\<close> (the source calls it on no other):
  such a string has no sign, space or underscore, so \<open>int\<close> reads the decimal value of
  each character, most significant first. CPython first counts the leading characters
  that have a decimal value and raises ValueError when there are more than
  \<open>sys.int_info.default_max_str_digits\<close> = 4300 of them (the default of
  \<open>sys.set_int_max_str_digits\<close>); otherwise it raises ValueError at a character that has
  no decimal value, with a message that quotes the string as \<open>repr\<close> prints it, cut at
  200 characters (the format is \<open>%.200R\<close>). The empty string is an invalid literal too.
\<close>

definition MAX_STR_DIGITS :: nat where
  "MAX_STR_DIGITS = 4300"

fun decimal_value :: "unicode_db \<Rightarrow> nat \<Rightarrow> str \<Rightarrow> nat option" where
  "decimal_value U acc [] = Some acc"
| "decimal_value U acc (c # cs) =
     (case to_decimal U c of
        None \<Rightarrow> None
      | Some d \<Rightarrow> decimal_value U (10 * acc + d) cs)"

definition int_of_str :: "unicode_db \<Rightarrow> str \<Rightarrow> exn + int" where
  "int_of_str U s =
     (let digits = length (takeWhile (\<lambda>c. to_decimal U c \<noteq> None) s) in
      if MAX_STR_DIGITS < digits
      then Inl (ValueError
             (ascii ''Exceeds the limit ('' @ str_of_int (int MAX_STR_DIGITS) @
              ascii '' digits) for integer string conversion: value has '' @
              str_of_int (int digits) @
              ascii '' digits; use sys.set_int_max_str_digits() to increase the limit'')
             None)
      else
        case (if s = [] then None else decimal_value U 0 s) of
          None \<Rightarrow>
            Inl (ValueError
                  (ascii ''invalid literal for int() with base 10: '' @
                   take 200 ([39] @ s @ [39]))
                  None)
        | Some n \<Rightarrow> Inr (int n))"

text \<open>The descriptor is a dictionary with fixed keys: a record per dictionary.\<close>

record memo_fields =
  MemoType :: str
  MemoData :: str

record memo_entry =
  Memo :: memo_fields

record transaction =
  TransactionType :: str
  Account :: pyval
  Destination :: pyval
  Amount :: str
  Memos :: "memo_entry list"

definition build_pointer_transaction ::
  "unicode_db \<Rightarrow> pyval \<Rightarrow> pyval \<Rightarrow> str \<Rightarrow> pyval \<Rightarrow> pyval \<Rightarrow> pyval \<Rightarrow> str \<Rightarrow> exn + transaction" where
  "build_pointer_transaction U account cid kind destination schema flags amount_drops =
     exn_bind
       (reraise_ValueError
         (exn_bind (validate_xrp_address account) (\<lambda>_.
          exn_bind (validate_xrp_address destination) (\<lambda>_.
          exn_bind (validate_cid cid) (\<lambda>_.
          exn_bind (validate_non_negative_int schema (ascii ''schema'')) (\<lambda>_.
          validate_non_negative_int flags (ascii ''flags'')))))))
       (\<lambda>_.
         exn_bind (encode_pointer_memo cid kind schema flags (PyInt 1)) (\<lambda>memo_payload.
         if \<not> isdigit U amount_drops
         then Inl (ValueError (ascii ''amount_drops must be a positive integer string'') None)
         else
           exn_bind (int_of_str U amount_drops) (\<lambda>n.
           if n \<le> 0
           then Inl (ValueError (ascii ''amount_drops must be a positive integer string'') None)
           else if length memo_payload > MAX_MEMO_BYTES
           then Inl (ValueError
                  (ascii ''MemoData too large: '' @ str_of_int (int (length memo_payload)) @
                   ascii '' bytes (max '' @ str_of_int (int MAX_MEMO_BYTES) @ ascii '')'')
                  None)
           else
             exn_bind (encode_utf8 DEFAULT_MEMO_TYPE) (\<lambda>memo_type.
             Inr \<lparr>TransactionType = ascii ''Payment'',
                  Account = account,
                  Destination = destination,
                  Amount = amount_drops,
                  Memos = [\<lparr>Memo = \<lparr>MemoType = hex memo_type,
                                     MemoData = hex memo_payload\<rparr>\<rparr>]\<rparr>))))"

section \<open>The wire format and the other notions the properties are stated with\<close>

text \<open>
  Unsigned LEB128 as the specification words it: seven bits per byte, least significant
  group first, the continuation bit (128) set on every byte but the last.
\<close>

fun leb128 :: "nat \<Rightarrow> bytes" where
  "leb128 n = (if n < 128 then [n] else (128 + n mod 128) # leb128 (n div 128))"

declare leb128.simps [simp del]

text \<open>
  The decoder of the specification's round trip; the repository has none. It reads bytes
  up to the first one without the continuation bit and returns the value with the bytes
  left over; \<open>None\<close> when the input ends before that.
\<close>

fun decode_varint :: "bytes \<Rightarrow> (nat \<times> bytes) option" where
  "decode_varint [] = None"
| "decode_varint (b # bs) =
     (if b < 128 then Some (b, bs)
      else case decode_varint bs of
             None \<Rightarrow> None
           | Some (v, rest) \<Rightarrow> Some (b mod 128 + 128 * v, rest))"

text \<open>Reading a lowercase hexadecimal string back into bytes.\<close>

definition unhex_digit :: "nat \<Rightarrow> nat option" where
  "unhex_digit c =
     (if 48 \<le> c \<and> c \<le> 57 then Some (c - 48)
      else if 97 \<le> c \<and> c \<le> 102 then Some (c - 87)
      else None)"

fun unhex :: "str \<Rightarrow> bytes option" where
  "unhex [] = Some []"
| "unhex [c] = None"
| "unhex (c # d # cs) =
     (case (unhex_digit c, unhex_digit d, unhex cs) of
        (Some h, Some l, Some bs) \<Rightarrow> Some ((16 * h + l) # bs)
      | _ \<Rightarrow> None)"

text \<open>The payload of a value of the expected dynamic type.\<close>

definition the_str :: "pyval \<Rightarrow> str" where
  "the_str v = (case v of PyStr s \<Rightarrow> s | _ \<Rightarrow> [])"

definition the_int :: "pyval \<Rightarrow> int" where
  "the_int v = (case v of PyInt i \<Rightarrow> i | _ \<Rightarrow> 0)"

text \<open>
  The base58 alphabet of ledger addresses: the digits and letters without the
  look-alikes \<open>0\<close>, \<open>O\<close>, \<open>I\<close> and \<open>l\<close>.
\<close>

definition base58_alphabet :: str where
  "base58_alphabet = ascii ''123456789ABCDEFGHJKLMNPQRSTUVWXYZabcdefghijkmnopqrstuvwxyz''"


text \<open>
  What every Unicode character database gives: the ASCII digits \<open>0\<close> to \<open>9\<close> are the
  only ASCII characters with a digit or a decimal value, and a character with a decimal
  value \<open>d\<close> has \<open>d \<le> 9\<close> and the same digit value.
\<close>

definition db_ok :: "unicode_db \<Rightarrow> bool" where
  "db_ok U =
     ((\<forall>c. c < 128 \<longrightarrow>
          to_digit U c = (if 48 \<le> c \<and> c \<le> 57 then Some (c - 48) else None) \<and>
          to_decimal U c = (if 48 \<le> c \<and> c \<le> 57 then Some (c - 48) else None)) \<and>
      (\<forall>c d. to_decimal U c = Some d \<longrightarrow> d \<le> 9 \<and> to_digit U c = Some d))"

text \<open>
  A database fragment to run the functions on: the ASCII digits, the Arabic-Indic digits
  U+0660..U+0669 (decimal), and SUPERSCRIPT TWO U+00B2 (a digit, not a decimal).
\<close>

definition sample_db :: unicode_db where
  "sample_db =
     \<lparr>to_digit = (\<lambda>c. if 48 \<le> c \<and> c \<le> 57 then Some (c - 48)
                      else if 1632 \<le> c \<and> c \<le> 1641 then Some (c - 1632)
                      else if c = 178 then Some 2 else None),
      to_decimal = (\<lambda>c. if 48 \<le> c \<and> c \<le> 57 then Some (c - 48)
                        else if 1632 \<le> c \<and> c \<le> 1641 then Some (c - 1632)
                        else None)\<rparr>"

text \<open>
  A string of decimal digits that stands for a positive integer: it is not empty, each
  character has a decimal value, and the number they write in base ten is positive.
\<close>

definition decimal_number :: "unicode_db \<Rightarrow> str \<Rightarrow> nat" where
  "decimal_number U s = foldl (\<lambda>acc c. 10 * acc + the (to_decimal U c)) 0 s"

definition positive_decimal_string :: "unicode_db \<Rightarrow> str \<Rightarrow> bool" where
  "positive_decimal_string U s =
     (s \<noteq> [] \<and> list_all (\<lambda>c. to_decimal U c \<noteq> None) s \<and> 0 < decimal_number U s)"

text \<open>
  The same with the digits \<open>0\<close> to \<open>9\<close> only, which needs no database: a string of
  ASCII digits that writes a positive integer, and the number it writes.
\<close>

definition ascii_digit :: "nat \<Rightarrow> bool" where
  "ascii_digit c = (48 \<le> c \<and> c \<le> 57)"

definition digits_number :: "str \<Rightarrow> nat" where
  "digits_number s = foldl (\<lambda>acc c. 10 * acc + (c - 48)) 0 s"

definition positive_digit_string :: "str \<Rightarrow> bool" where
  "positive_digit_string s = (s \<noteq> [] \<and> list_all ascii_digit s \<and> 0 < digits_number s)"

text \<open>The digit \<open>0\<close> written \<open>n\<close> times and then the digit \<open>1\<close>: the number one.\<close>

definition zeros_one :: "nat \<Rightarrow> str" where
  "zeros_one n = replicate n 0x30 @ [0x31]"

text \<open>The arguments \<open>build_pointer_transaction\<close> validates, as one predicate.\<close>

definition fields_valid :: "pyval \<Rightarrow> pyval \<Rightarrow> pyval \<Rightarrow> pyval \<Rightarrow> pyval \<Rightarrow> bool" where
  "fields_valid account destination cid schema flags =
     (validate_xrp_address account = Inr () \<and>
      validate_xrp_address destination = Inr () \<and>
      validate_cid cid = Inr () \<and>
      validate_non_negative_int schema (ascii ''schema'') = Inr () \<and>
      validate_non_negative_int flags (ascii ''flags'') = Inr ())"

text \<open>
  Strings that pass \<open>validate_cid\<close> when \<open>n\<close> is 16 or more: \<open>bafk\<close> followed by
  \<open>n\<close> times the letter \<open>a\<close>; \<open>bafk\<close> followed by \<open>n\<close> times U+00E9, which takes
  two bytes in UTF-8 (\<open>accented_bytes\<close> is the encoding); and \<open>bafk\<close> followed by
  sixteen times the lone surrogate U+D800, which has no UTF-8 encoding.
\<close>

definition ascii_cid :: "nat \<Rightarrow> str" where
  "ascii_cid n = ascii ''bafk'' @ replicate n 0x61"

definition accented_cid :: "nat \<Rightarrow> str" where
  "accented_cid n = ascii ''bafk'' @ replicate n 0xE9"

definition accented_bytes :: "nat \<Rightarrow> bytes" where
  "accented_bytes n = ascii ''bafk'' @ concat (replicate n [0xC3, 0xA9])"

definition surrogate_cid :: str where
  "surrogate_cid = ascii ''bafk'' @ replicate 16 0xD800"

text \<open>The \<open>try\<close> block of \<open>build_pointer_transaction\<close>: its five checks in order.\<close>

definition validation_block :: "pyval \<Rightarrow> pyval \<Rightarrow> pyval \<Rightarrow> pyval \<Rightarrow> pyval \<Rightarrow> exn + unit" where
  "validation_block account destination cid schema flags =
     exn_bind (validate_xrp_address account) (\<lambda>_.
     exn_bind (validate_xrp_address destination) (\<lambda>_.
     exn_bind (validate_cid cid) (\<lambda>_.
     exn_bind (validate_non_negative_int schema (ascii ''schema'')) (\<lambda>_.
     validate_non_negative_int flags (ascii ''flags'')))))"


text \<open>The descriptor of a successful build.\<close>

definition descriptor :: "pyval \<Rightarrow> pyval \<Rightarrow> str \<Rightarrow> bytes \<Rightarrow> transaction" where
  "descriptor account destination amount_drops p =
     \<lparr>TransactionType = ascii ''Payment'', Account = account, Destination = destination,
      Amount = amount_drops,
      Memos = [\<lparr>Memo = \<lparr>MemoType = ascii ''70662e707472'', MemoData = hex p\<rparr>\<rparr>]\<rparr>"

section \<open>The varint codec\<close>

lemma and_127: "n AND (127::nat) = n mod 128"
  using take_bit_eq_mask [of 7 n] by (simp add: take_bit_eq_mod mask_eq_exp_minus_1)

lemma or_128: "(n::nat) < 128 \<Longrightarrow> n OR 128 = n + 128"
proof -
  assume "n < 128"
  then have "\<not> bit n 7"
    by (simp add: bit_iff_odd)
  then have "n AND 128 = 0"
    using and_exp_eq_0_iff_not_bit [of n 7] by simp
  then have "n + 128 = n OR 128"
    by (rule disjunctive_add_eq_or)
  then show ?thesis by simp
qed

lemma varint_loop_small: "val < 128 \<Longrightarrow> varint_loop val out = out @ [val]"
  by (subst varint_loop.simps) (simp add: and_127 drop_bit_eq_div Let_def)

lemma varint_loop_big:
  "128 \<le> val \<Longrightarrow> varint_loop val out = varint_loop (val div 128) (out @ [val mod 128 + 128])"
  by (subst varint_loop.simps)
     (simp add: and_127 or_128 drop_bit_eq_div Let_def div_eq_0_iff)

lemma varint_loop_leb128: "varint_loop n out = out @ leb128 n"
proof (induction n arbitrary: out rule: less_induct)
  case (less n)
  show ?case
  proof (cases "n < 128")
    case True
    then show ?thesis by (simp add: varint_loop_small leb128.simps)
  next
    case False
    then have "n div 128 < n" by simp
    from less [OF this] False show ?thesis
      by (simp add: varint_loop_big leb128.simps [of n] add.commute)
  qed
qed

lemma encode_varint_nonneg: "0 \<le> v \<Longrightarrow> encode_varint v = Inr (leb128 (nat v))"
  by (simp add: encode_varint_def varint_loop_leb128)

lemma encode_varint_nat [simp]: "encode_varint (int n) = Inr (leb128 n)"
  by (simp add: encode_varint_nonneg)

lemma decode_leb128: "decode_varint (leb128 n @ rest) = Some (n, rest)"
proof (induction n rule: less_induct)
  case (less n)
  show ?case
  proof (cases "n < 128")
    case True
    then show ?thesis by (simp add: leb128.simps)
  next
    case False
    then have "n div 128 < n" by simp
    from less [OF this] False show ?thesis
      by (simp add: leb128.simps [of n])
  qed
qed

lemma leb128_bytes: "list_all (\<lambda>b. b < 256) (leb128 n)"
proof (induction n rule: less_induct)
  case (less n)
  show ?case
  proof (cases "n < 128")
    case True
    then show ?thesis by (simp add: leb128.simps)
  next
    case False
    then have "n div 128 < n" by simp
    from less [OF this] False show ?thesis
      by (simp add: leb128.simps [of n])
  qed
qed

lemma leb128_shape:
  "list_all (\<lambda>b. 128 \<le> b \<and> b < 256) (butlast (leb128 n)) \<and> last (leb128 n) < 128 \<and> leb128 n \<noteq> []"
proof (induction n rule: less_induct)
  case (less n)
  show ?case
  proof (cases "n < 128")
    case True
    then show ?thesis by (simp add: leb128.simps)
  next
    case False
    then have "n div 128 < n" by simp
    from less [OF this] False show ?thesis
      by (simp add: leb128.simps [of n])
  qed
qed

lemma leb128_length_1: "n < 128 \<Longrightarrow> length (leb128 n) = 1"
  by (simp add: leb128.simps)

lemma leb128_length_2: "128 \<le> n \<Longrightarrow> n < 16384 \<Longrightarrow> length (leb128 n) = 2"
  by (simp add: leb128.simps [of n] leb128_length_1)

lemma leb128_length_pos: "1 \<le> length (leb128 n)"
  by (cases "n < 128") (simp_all add: leb128.simps [of n])

lemma leb128_length_ge_2: "128 \<le> n \<Longrightarrow> 2 \<le> length (leb128 n)"
  using leb128_length_pos [of "n div 128"] by (simp add: leb128.simps [of n])

lemma leb128_small [simp]: "n < 128 \<Longrightarrow> leb128 n = [n]"
  by (simp add: leb128.simps)

lemma leb128_big: "128 \<le> n \<Longrightarrow> leb128 n = (128 + n mod 128) # leb128 (n div 128)"
  by (simp add: leb128.simps [of n])

text \<open>
  C3, as amended. For every integer \<open>v \<ge> 0\<close>, whatever its size, \<open>_encode_varint\<close>
  returns the unsigned LEB128 bytes of \<open>v\<close> (every byte but the last carries the
  continuation bit) and decoding them gives \<open>v\<close> back with nothing left over; for every
  \<open>v < 0\<close> it raises ValueError "varint cannot be negative". The encoder has no upper
  bound of its own.
\<close>

theorem encode_varint_roundtrip:
  "(0 \<le> v \<longrightarrow>
      (\<exists>bs. encode_varint v = Inr bs \<and> bs = leb128 (nat v) \<and>
            decode_varint bs = Some (nat v, []) \<and>
            list_all (\<lambda>b. 128 \<le> b \<and> b < 256) (butlast bs) \<and> last bs < 128)) \<and>
   (v < 0 \<longrightarrow> encode_varint v = Inl (ValueError (ascii ''varint cannot be negative'') None))"
proof (intro conjI impI)
  assume "0 \<le> v"
  then have "encode_varint v = Inr (leb128 (nat v))"
    by (rule encode_varint_nonneg)
  moreover have "decode_varint (leb128 (nat v)) = Some (nat v, [])"
    using decode_leb128 [of "nat v" "[]"] by simp
  ultimately show "\<exists>bs. encode_varint v = Inr bs \<and> bs = leb128 (nat v) \<and>
      decode_varint bs = Some (nat v, []) \<and>
      list_all (\<lambda>b. 128 \<le> b \<and> b < 256) (butlast bs) \<and> last bs < 128"
    using leb128_shape [of "nat v"] by simp
next
  assume "v < 0"
  then show "encode_varint v = Inl (ValueError (ascii ''varint cannot be negative'') None)"
    by (simp add: encode_varint_def)
qed

theorem encode_varint_roundtrip_witness:
  "(0::int) \<le> 300 \<and> encode_varint 300 = Inr [172, 2] \<and>
   decode_varint [172, 2] = Some (300, []) \<and>
   (-1::int) < 0 \<and>
   encode_varint (- 1) = Inl (ValueError (ascii ''varint cannot be negative'') None)"
  using encode_varint_roundtrip [of 300] encode_varint_roundtrip [of "- 1"]
  by (simp add: leb128_big)

text \<open>
  C3 as stated fails above the range: \<open>2 ^ 31\<close> is greater than \<open>2 ^ 31 - 1\<close> and
  \<open>_encode_varint\<close> encodes it, in five bytes.
\<close>

theorem encode_varint_above_int32_counterexample:
  "(2::int) ^ 31 - 1 < 2 ^ 31 \<and> encode_varint (2 ^ 31) = Inr [128, 128, 128, 128, 8]"
  by (simp add: encode_varint_nonneg leb128_big)

section \<open>Validators and the pointer encoder\<close>

lemma exn_bind_Inr [simp]: "exn_bind (Inr x) f = f x"
  by (simp add: exn_bind_def)

lemma exn_bind_Inl [simp]: "exn_bind (Inl e) f = Inl e"
  by (simp add: exn_bind_def)

lemma exn_bind_eq_Inr:
  "exn_bind r f = Inr y \<longleftrightarrow> (\<exists>x. r = Inr x \<and> f x = Inr y)"
  by (cases r) simp_all

lemma reraise_eq_Inr [simp]: "reraise_ValueError r = Inr x \<longleftrightarrow> r = Inr x"
  by (auto simp: reraise_ValueError_def split: sum.splits exn.splits)

lemma reraise_Inr [simp]: "reraise_ValueError (Inr x) = Inr x"
  by (simp add: reraise_ValueError_def)

lemma reraise_ValidationError [simp]:
  "reraise_ValueError (Inl (ValidationError m)) = Inl (ValueError m (Some (ValidationError m)))"
  by (simp add: reraise_ValueError_def)

lemma validate_cid_iff:
  "validate_cid cid = Inr () \<longleftrightarrow>
     (\<exists>s. cid = PyStr s \<and> startswith s CID_PREFIXES \<and> 20 \<le> length s)"
  by (cases cid) (auto simp: validate_cid_def)

lemma validate_xrp_address_iff:
  "validate_xrp_address a = Inr () \<longleftrightarrow> (\<exists>s. a = PyStr s \<and> fullmatch_address s)"
  by (cases a) (auto simp: validate_xrp_address_def fullmatch_address_def)

lemma validate_non_negative_int_iff:
  "validate_non_negative_int val name = Inr () \<longleftrightarrow>
     (\<exists>v. val = PyInt v \<and> 0 \<le> v \<and> v \<le> 2 ^ 31 - 1)"
  by (cases val) (auto simp: validate_non_negative_int_def MAX_INT32_def)



lemma validate_non_negative_int_error:
  "validate_non_negative_int val name = Inl e \<Longrightarrow> \<exists>m. e = ValidationError m"
  by (cases val) (auto simp: validate_non_negative_int_def split: if_splits)

lemma encode_key_values [simp]:
  "encode_key 1 2 = Inr [10]" "encode_key 2 0 = Inr [16]" "encode_key 3 0 = Inr [24]"
  "encode_key 4 0 = Inr [32]" "encode_key 8 0 = Inr [64]"
  by (simp_all add: encode_key_def encode_varint_nonneg push_bit_eq_mult)

lemma encode_string_1:
  "encode_utf8 s = Inr e \<Longrightarrow> encode_string 1 (PyStr s) = Inr ([10] @ leb128 (length e) @ e)"
  by (simp add: encode_string_def)

lemma encode_string_Inr:
  "encode_string 1 v = Inr p \<Longrightarrow> \<exists>s e. v = PyStr s \<and> encode_utf8 s = Inr e \<and> p = [10] @ leb128 (length e) @ e"
  by (cases v) (auto simp: encode_string_def exn_bind_eq_Inr)

lemma encode_string_Inl:
  "encode_utf8 s = Inl x \<Longrightarrow> encode_string 1 (PyStr s) = Inl x"
  by (simp add: encode_string_def)

lemma encode_varint_field_nonneg:
  "0 \<le> v \<Longrightarrow> encode_key f 0 = Inr k \<Longrightarrow> encode_varint_field f (PyInt v) = Inr (k @ leb128 (nat v))"
  by (simp add: encode_varint_field_def encode_varint_nonneg)

lemma POINTER_KIND_Some: "POINTER_KIND kind = Some code \<longleftrightarrow> kind = ascii ''TASK_SUBMISSION'' \<and> code = 6"
  by (auto simp: POINTER_KIND_def)


lemma encode_pointer_memo_ok:
  assumes k: "POINTER_KIND kind = Some code"
      and c: "validate_cid cid = Inr ()"
      and s: "validate_non_negative_int schema (ascii ''schema'') = Inr ()"
      and f: "validate_non_negative_int flags (ascii ''flags'') = Inr ()"
      and r: "unknown8 = PyNone \<or> validate_non_negative_int unknown8 (ascii ''unknown8'') = Inr ()"
      and e: "encode_utf8 (the_str cid) = Inr encoded"
  shows "encode_pointer_memo cid kind schema flags unknown8 =
           Inr ([10] @ leb128 (length encoded) @ encoded @
                [16] @ leb128 (nat (the_int schema)) @
                [24] @ leb128 (nat code) @
                [32] @ leb128 (nat (the_int flags)) @
                (if unknown8 = PyNone then [] else [64] @ leb128 (nat (the_int unknown8))))"
proof -
  from c obtain cs where cs: "cid = PyStr cs"
    by (auto simp: validate_cid_iff)
  from s obtain sv where sv: "schema = PyInt sv" "0 \<le> sv"
    by (auto simp: validate_non_negative_int_iff)
  from f obtain fv where fv: "flags = PyInt fv" "0 \<le> fv"
    by (auto simp: validate_non_negative_int_iff)
  from k have code: "code = 6"
    by (simp add: POINTER_KIND_Some)
  from e cs have f1: "encode_string 1 cid = Inr ([10] @ leb128 (length encoded) @ encoded)"
    by (simp add: the_str_def encode_string_1)
  have f2: "encode_varint_field 2 schema = Inr ([16] @ leb128 (nat (the_int schema)))"
    using sv by (simp add: encode_varint_field_nonneg the_int_def)
  have f3: "encode_varint_field 3 (PyInt code) = Inr ([24] @ leb128 (nat code))"
    using code by (simp add: encode_varint_field_nonneg)
  have f4: "encode_varint_field 4 flags = Inr ([32] @ leb128 (nat (the_int flags)))"
    using fv by (simp add: encode_varint_field_nonneg the_int_def)
  show ?thesis
  proof (cases "unknown8 = PyNone")
    case True
    with k c s f f1 f2 f3 f4 show ?thesis
      by (simp add: encode_pointer_memo_def)
  next
    case False
    with r obtain rv where rv: "unknown8 = PyInt rv" "0 \<le> rv"
      by (auto simp: validate_non_negative_int_iff)
    have f8: "encode_varint_field 8 unknown8 = Inr ([64] @ leb128 (nat (the_int unknown8)))"
      using rv by (simp add: encode_varint_field_nonneg the_int_def)
    from False r have "validate_non_negative_int unknown8 (ascii ''unknown8'') = Inr ()"
      by simp
    with False k c s f f1 f2 f3 f4 f8 show ?thesis
      by (simp add: encode_pointer_memo_def)
  qed
qed

lemma encode_pointer_memo_Inr:
  assumes "encode_pointer_memo cid kind schema flags unknown8 = Inr p"
  shows "POINTER_KIND kind = Some 6 \<and> validate_cid cid = Inr () \<and>
         validate_non_negative_int schema (ascii ''schema'') = Inr () \<and>
         validate_non_negative_int flags (ascii ''flags'') = Inr () \<and>
         (unknown8 = PyNone \<or> validate_non_negative_int unknown8 (ascii ''unknown8'') = Inr ()) \<and>
         (\<exists>encoded. encode_utf8 (the_str cid) = Inr encoded)"
proof -
  from assms obtain code where k: "POINTER_KIND kind = Some code"
    by (cases "POINTER_KIND kind") (auto simp: encode_pointer_memo_def)
  then have code: "code = 6" by (simp add: POINTER_KIND_Some)
  from assms k have v:
    "exn_bind (validate_cid cid) (\<lambda>_.
       exn_bind (validate_non_negative_int schema (ascii ''schema'')) (\<lambda>_.
       exn_bind (validate_non_negative_int flags (ascii ''flags'')) (\<lambda>_.
       if unknown8 \<noteq> PyNone
       then validate_non_negative_int unknown8 (ascii ''unknown8'')
       else Inr ()))) = Inr ()"
    and enc: "\<exists>f1. encode_string 1 cid = Inr f1"
    by (auto simp: encode_pointer_memo_def exn_bind_eq_Inr)
  from v have c: "validate_cid cid = Inr ()"
    and s: "validate_non_negative_int schema (ascii ''schema'') = Inr ()"
    and f: "validate_non_negative_int flags (ascii ''flags'') = Inr ()"
    and r: "unknown8 = PyNone \<or> validate_non_negative_int unknown8 (ascii ''unknown8'') = Inr ()"
    by (auto simp: exn_bind_eq_Inr split: if_splits)
  from enc have "\<exists>encoded. encode_utf8 (the_str cid) = Inr encoded"
    by (auto dest!: encode_string_Inr simp: the_str_def)
  with k code c s f r show ?thesis by simp
qed

lemma utf8_char_ascii: "c < 128 \<Longrightarrow> utf8_char c = Inr [c]"
  by (simp add: utf8_char_def)

lemma encode_utf8_ascii: "list_all (\<lambda>c. c < 128) s \<Longrightarrow> encode_utf8 s = Inr s"
  by (induction s) (simp_all add: utf8_char_ascii)

lemma list_all_ascii [simp]: "list_all (\<lambda>c. c < 128) (ascii ''bafkreiTESTCID1234567890'')"
  by (simp add: ascii_def)

lemma memo_test_vector:
  "encode_pointer_memo (PyStr (ascii ''bafkreiTESTCID1234567890'')) (ascii ''TASK_SUBMISSION'')
      (PyInt 1) (PyInt 1) (PyInt 1) =
   Inr ([10, 24] @ ascii ''bafkreiTESTCID1234567890'' @ [16, 1, 24, 6, 32, 1, 64, 1])"
proof -
  have "encode_utf8 (the_str (PyStr (ascii ''bafkreiTESTCID1234567890''))) = 
        Inr (ascii ''bafkreiTESTCID1234567890'')"
    by (simp add: the_str_def encode_utf8_ascii)
  moreover have "validate_cid (PyStr (ascii ''bafkreiTESTCID1234567890'')) = Inr ()"
    by (simp add: validate_cid_def startswith_def CID_PREFIXES_def ascii_def)
  moreover have "POINTER_KIND (ascii ''TASK_SUBMISSION'') = Some 6"
    by (simp add: POINTER_KIND_def)
  moreover have "validate_non_negative_int (PyInt 1) n = Inr ()" for n
    by (simp add: validate_non_negative_int_iff)
  ultimately show ?thesis
    using encode_pointer_memo_ok [of "ascii ''TASK_SUBMISSION''" 6
        "PyStr (ascii ''bafkreiTESTCID1234567890'')" "PyInt 1" "PyInt 1" "PyInt 1"
        "ascii ''bafkreiTESTCID1234567890''"]
    by (simp add: the_int_def ascii_def)
qed

lemma utf8_char_two: "128 \<le> c \<Longrightarrow> c < 2048 \<Longrightarrow> utf8_char c = Inr [192 + c div 64, 128 + c mod 64]"
  by (simp add: utf8_char_def)

lemma utf8_char_surrogate: "55296 \<le> c \<Longrightarrow> c \<le> 57343 \<Longrightarrow> utf8_char c = Inl UnicodeEncodeError"
  by (simp add: utf8_char_def)

lemma encode_utf8_append:
  "encode_utf8 (a @ b) =
     exn_bind (encode_utf8 a) (\<lambda>x. exn_bind (encode_utf8 b) (\<lambda>y. Inr (x @ y)))"
proof (induction a)
  case Nil
  show ?case by (cases "encode_utf8 b") simp_all
next
  case (Cons c a)
  show ?case
    by (cases "utf8_char c"; cases "encode_utf8 a"; cases "encode_utf8 b")
       (simp_all add: Cons)
qed

lemma encode_utf8_replicate:
  "utf8_char c = Inr b \<Longrightarrow> encode_utf8 (replicate n c) = Inr (concat (replicate n b))"
  by (induction n) simp_all

lemma encode_utf8_replicate_fail:
  "utf8_char c = Inl e \<Longrightarrow> 0 < n \<Longrightarrow> encode_utf8 (replicate n c) = Inl e"
  by (cases n) simp_all

lemma length_concat_replicate: "length (concat (replicate n xs)) = n * length xs"
  by (induction n) simp_all

lemma validate_cid_bafk: "16 \<le> length t \<Longrightarrow> validate_cid (PyStr (ascii ''bafk'' @ t)) = Inr ()"
  by (simp add: validate_cid_def startswith_def CID_PREFIXES_def ascii_def)

lemma POINTER_KIND_TASK [simp]: "POINTER_KIND (ascii ''TASK_SUBMISSION'') = Some 6"
  by (simp add: POINTER_KIND_def)

lemma validate_small_int [simp]:
  "validate_non_negative_int (PyInt 0) n = Inr ()"
  "validate_non_negative_int (PyInt 1) n = Inr ()"
  "validate_non_negative_int (PyInt 300) n = Inr ()"
  by (simp_all add: validate_non_negative_int_iff)

lemma encode_utf8_bafk: "encode_utf8 (ascii ''bafk'') = Inr (ascii ''bafk'')"
  by (rule encode_utf8_ascii) (simp add: ascii_def)

lemma encode_utf8_accented: "encode_utf8 (accented_cid n) = Inr (accented_bytes n)"
  by (simp add: accented_cid_def accented_bytes_def encode_utf8_append encode_utf8_bafk
        encode_utf8_replicate [of 233 "[195, 169]"] utf8_char_two)

lemma length_accented:
  "length (accented_cid n) = n + 4" "length (accented_bytes n) = 2 * n + 4"
  by (simp_all add: accented_cid_def accented_bytes_def ascii_def length_concat_replicate)

lemma validate_cid_accented: "16 \<le> n \<Longrightarrow> validate_cid (PyStr (accented_cid n)) = Inr ()"
  unfolding accented_cid_def by (rule validate_cid_bafk) simp

lemma validate_cid_ascii_cid: "16 \<le> n \<Longrightarrow> validate_cid (PyStr (ascii_cid n)) = Inr ()"
  unfolding ascii_cid_def by (rule validate_cid_bafk) simp

lemma length_ascii_cid: "length (ascii_cid n) = n + 4"
  by (simp add: ascii_cid_def ascii_def)

lemma list_all_ascii_cid: "list_all (\<lambda>c. c < 128) (ascii_cid n)"
  by (simp add: ascii_cid_def ascii_def list_all_iff)

lemma encode_utf8_ascii_cid: "encode_utf8 (ascii_cid n) = Inr (ascii_cid n)"
  by (rule encode_utf8_ascii) (rule list_all_ascii_cid)

lemma encode_utf8_surrogate: "encode_utf8 surrogate_cid = Inl UnicodeEncodeError"
  by (simp add: surrogate_cid_def encode_utf8_append encode_utf8_bafk
        encode_utf8_replicate_fail [of 55296 UnicodeEncodeError] utf8_char_surrogate)

lemma validate_cid_surrogate: "validate_cid (PyStr surrogate_cid) = Inr ()"
  unfolding surrogate_cid_def by (rule validate_cid_bafk) simp


text \<open>
  C1, as amended. For every pointer record that passes validation (recognized kind, valid
  CID, schema, flags and reserved value in range) and whose CID has a UTF-8 encoding,
  \<open>encode_pointer_memo\<close> returns exactly: field 1 (key 0x0A) as the length-delimited
  UTF-8 bytes of the CID, field 2 (key 0x10) as the varint of schema, field 3 (key 0x18)
  as the varint of the kind's code, which is 6, field 4 (key 0x20) as the varint of flags
  and, only when reserved is not None, field 8 (key 0x40) as the varint of reserved; no
  other field. On the test vector the result starts with 0x0A, holds the CID's ASCII
  bytes, and is 34 bytes long.
\<close>


theorem encode_pointer_memo_wire_format:
  "(POINTER_KIND kind = Some code \<and>
    validate_cid cid = Inr () \<and>
    validate_non_negative_int schema (ascii ''schema'') = Inr () \<and>
    validate_non_negative_int flags (ascii ''flags'') = Inr () \<and>
    (unknown8 = PyNone \<or> validate_non_negative_int unknown8 (ascii ''unknown8'') = Inr ()) \<and>
    encode_utf8 (the_str cid) = Inr encoded \<longrightarrow>
    code = 6 \<and>
    encode_pointer_memo cid kind schema flags unknown8 =
      Inr ([10] @ leb128 (length encoded) @ encoded @
           [16] @ leb128 (nat (the_int schema)) @
           [24] @ leb128 (nat code) @
           [32] @ leb128 (nat (the_int flags)) @
           (if unknown8 = PyNone then [] else [64] @ leb128 (nat (the_int unknown8))))) \<and>
   (\<exists>p. encode_pointer_memo (PyStr (ascii ''bafkreiTESTCID1234567890''))
           (ascii ''TASK_SUBMISSION'') (PyInt 1) (PyInt 1) (PyInt 1) = Inr p \<and>
        p = [10, 24] @ ascii ''bafkreiTESTCID1234567890'' @ [16, 1, 24, 6, 32, 1, 64, 1] \<and>
        hd p = 10 \<and> length p = 34 \<and> length p < 100)"
proof (intro conjI impI)
  assume h: "POINTER_KIND kind = Some code \<and>
    validate_cid cid = Inr () \<and>
    validate_non_negative_int schema (ascii ''schema'') = Inr () \<and>
    validate_non_negative_int flags (ascii ''flags'') = Inr () \<and>
    (unknown8 = PyNone \<or> validate_non_negative_int unknown8 (ascii ''unknown8'') = Inr ()) \<and>
    encode_utf8 (the_str cid) = Inr encoded"
  then show "code = 6"
    by (simp add: POINTER_KIND_Some)
  from h show "encode_pointer_memo cid kind schema flags unknown8 =
      Inr ([10] @ leb128 (length encoded) @ encoded @
           [16] @ leb128 (nat (the_int schema)) @
           [24] @ leb128 (nat code) @
           [32] @ leb128 (nat (the_int flags)) @
           (if unknown8 = PyNone then [] else [64] @ leb128 (nat (the_int unknown8))))"
    by (intro encode_pointer_memo_ok) simp_all
next
  show "\<exists>p. encode_pointer_memo (PyStr (ascii ''bafkreiTESTCID1234567890''))
           (ascii ''TASK_SUBMISSION'') (PyInt 1) (PyInt 1) (PyInt 1) = Inr p \<and>
        p = [10, 24] @ ascii ''bafkreiTESTCID1234567890'' @ [16, 1, 24, 6, 32, 1, 64, 1] \<and>
        hd p = 10 \<and> length p = 34 \<and> length p < 100"
    by (simp add: memo_test_vector) (simp add: ascii_def)
qed

theorem encode_pointer_memo_wire_format_witness:
  "POINTER_KIND (ascii ''TASK_SUBMISSION'') = Some 6 \<and>
   validate_cid (PyStr (accented_cid 16)) = Inr () \<and>
   validate_non_negative_int (PyInt 300) (ascii ''schema'') = Inr () \<and>
   validate_non_negative_int (PyInt 0) (ascii ''flags'') = Inr () \<and>
   encode_utf8 (the_str (PyStr (accented_cid 16))) = Inr (accented_bytes 16) \<and>
   encode_pointer_memo (PyStr (accented_cid 16)) (ascii ''TASK_SUBMISSION'')
       (PyInt 300) (PyInt 0) PyNone =
     Inr ([10, 36] @ accented_bytes 16 @ [16, 172, 2, 24, 6, 32, 0])"
  using encode_pointer_memo_wire_format [of "ascii ''TASK_SUBMISSION''" 6
      "PyStr (accented_cid 16)" "PyInt 300" "PyInt 0" PyNone "accented_bytes 16"]
  by (simp add: validate_cid_accented the_str_def the_int_def encode_utf8_accented
        length_accented leb128_big)


text \<open>
  C1 as stated fails on a CID with a lone surrogate: the record passes every validation
  and \<open>encode_pointer_memo\<close> raises UnicodeEncodeError instead of returning bytes.
\<close>

theorem encode_pointer_memo_surrogate_counterexample:
  "POINTER_KIND (ascii ''TASK_SUBMISSION'') = Some 6 \<and>
   validate_cid (PyStr surrogate_cid) = Inr () \<and>
   validate_non_negative_int (PyInt 1) (ascii ''schema'') = Inr () \<and>
   validate_non_negative_int (PyInt 1) (ascii ''flags'') = Inr () \<and>
   validate_non_negative_int (PyInt 1) (ascii ''unknown8'') = Inr () \<and>
   encode_pointer_memo (PyStr surrogate_cid) (ascii ''TASK_SUBMISSION'')
       (PyInt 1) (PyInt 1) (PyInt 1) = Inl UnicodeEncodeError"
  by (simp add: validate_cid_surrogate encode_pointer_memo_def encode_string_Inl
        encode_utf8_surrogate)

section \<open>Address and integer validation\<close>


lemma base58_alphabet_ranges:
  "base58_alphabet = [49..<58] @ [65..<73] @ [74..<79] @ [80..<91] @ [97..<108] @ [109..<123]"
  by (simp add: base58_alphabet_def ascii_def)

lemma address_class_ranges:
   "address_class c \<longleftrightarrow> c \<in> set ([49..<58] @ [65..<73] @ [74..<79] @ [80..<91] @ [97..<108] @ [109..<123])"
  unfolding address_class_def
  by (simp only: set_append set_upt Un_iff atLeastLessThan_iff) presburger

lemma address_class_alphabet: "address_class c \<longleftrightarrow> c \<in> set base58_alphabet"
  by (simp only: base58_alphabet_ranges address_class_ranges)


lemma fullmatch_address_iff:
  "fullmatch_address s \<longleftrightarrow>
     25 \<le> length s \<and> length s \<le> 35 \<and> hd s = of_char CHR ''r'' \<and>
     list_all (\<lambda>c. c \<in> set base58_alphabet) (tl s)"
  by (cases s) (auto simp: fullmatch_address_def address_class_alphabet list_all_iff)


text \<open>
  C6. \<open>validate_xrp_address\<close> succeeds exactly for a string whose whole content is the
  letter \<open>r\<close> followed by 24 to 34 characters of the base58 alphabet (the digits and
  letters without \<open>0\<close>, \<open>O\<close>, \<open>I\<close>, \<open>l\<close>), 25 to 35 characters in all; it accepts
  \<open>r9cZA1mLK5R5Am25ArfXFmqgNwjZgnfk59\<close> and rejects \<open>not_an_address\<close>.
\<close>

theorem validate_xrp_address_shape:
  "(validate_xrp_address a = Inr () \<longleftrightarrow>
      (\<exists>s. a = PyStr s \<and> 25 \<le> length s \<and> length s \<le> 35 \<and> hd s = of_char CHR ''r'' \<and>
           list_all (\<lambda>c. c \<in> set base58_alphabet) (tl s))) \<and>
   validate_xrp_address (PyStr (ascii ''r9cZA1mLK5R5Am25ArfXFmqgNwjZgnfk59'')) = Inr () \<and>
   validate_xrp_address (PyStr (ascii ''not_an_address'')) =
     Inl (ValidationError (ascii ''invalid XRP address format: not_an_address''))"
proof (intro conjI)
  show "validate_xrp_address a = Inr () \<longleftrightarrow>
      (\<exists>s. a = PyStr s \<and> 25 \<le> length s \<and> length s \<le> 35 \<and> hd s = of_char CHR ''r'' \<and>
           list_all (\<lambda>c. c \<in> set base58_alphabet) (tl s))"
    by (simp only: validate_xrp_address_iff fullmatch_address_iff)
  show "validate_xrp_address (PyStr (ascii ''r9cZA1mLK5R5Am25ArfXFmqgNwjZgnfk59'')) = Inr ()"
    by (simp add: validate_xrp_address_def fullmatch_address_def ascii_def address_class_def)
  show "validate_xrp_address (PyStr (ascii ''not_an_address'')) =
     Inl (ValidationError (ascii ''invalid XRP address format: not_an_address''))"
    by (simp add: validate_xrp_address_def fullmatch_address_def ascii_def)
qed


text \<open>
  C8. \<open>validate_non_negative_int\<close> succeeds exactly for an integer \<open>v\<close> with
  \<open>0 \<le> v \<le> 2 ^ 31 - 1\<close>, and raises ValidationError for every other value (not an
  integer, negative, or above the bound); so the schema, the flags and the reserved
  value (when there is one) of every call of \<open>encode_pointer_memo\<close> that returns lie
  in this range.
\<close>

theorem validate_non_negative_int_range:
  "(validate_non_negative_int val name = Inr () \<longleftrightarrow>
      (\<exists>v. val = PyInt v \<and> 0 \<le> v \<and> v \<le> 2 ^ 31 - 1)) \<and>
   (validate_non_negative_int val name = Inr () \<or>
      (\<exists>m. validate_non_negative_int val name = Inl (ValidationError m))) \<and>
   (encode_pointer_memo cid kind schema flags unknown8 = Inr p \<longrightarrow>
      (\<exists>v. schema = PyInt v \<and> 0 \<le> v \<and> v \<le> 2 ^ 31 - 1) \<and>
      (\<exists>v. flags = PyInt v \<and> 0 \<le> v \<and> v \<le> 2 ^ 31 - 1) \<and>
      (unknown8 = PyNone \<or> (\<exists>v. unknown8 = PyInt v \<and> 0 \<le> v \<and> v \<le> 2 ^ 31 - 1)))"
proof (intro conjI impI)
  show "validate_non_negative_int val name = Inr () \<longleftrightarrow>
      (\<exists>v. val = PyInt v \<and> 0 \<le> v \<and> v \<le> 2 ^ 31 - 1)"
    by (rule validate_non_negative_int_iff)
  show "validate_non_negative_int val name = Inr () \<or>
      (\<exists>m. validate_non_negative_int val name = Inl (ValidationError m))"
    using validate_non_negative_int_error [of val name]
    by (cases "validate_non_negative_int val name") auto
next
  assume "encode_pointer_memo cid kind schema flags unknown8 = Inr p"
  from encode_pointer_memo_Inr [OF this]
  show "\<exists>v. schema = PyInt v \<and> 0 \<le> v \<and> v \<le> 2 ^ 31 - 1"
    and "\<exists>v. flags = PyInt v \<and> 0 \<le> v \<and> v \<le> 2 ^ 31 - 1"
    and "unknown8 = PyNone \<or> (\<exists>v. unknown8 = PyInt v \<and> 0 \<le> v \<and> v \<le> 2 ^ 31 - 1)"
    by (simp_all add: validate_non_negative_int_iff)
qed

lemma str_of_nat_MAX: "str_of_int MAX_INT32 = ascii ''2147483647''"
  by (simp add: str_of_int_def MAX_INT32_def str_of_nat.simps ascii_def)

theorem validate_non_negative_int_range_witness:
  "validate_non_negative_int (PyInt 0) (ascii ''schema'') = Inr () \<and>
   validate_non_negative_int (PyInt (2 ^ 31 - 1)) (ascii ''schema'') = Inr () \<and>
   validate_non_negative_int (PyInt (- 1)) (ascii ''schema'') =
     Inl (ValidationError (ascii ''schema must be a non-negative integer'')) \<and>
   validate_non_negative_int (PyInt (2 ^ 31)) (ascii ''schema'') =
     Inl (ValidationError (ascii ''schema must be <= 2147483647'')) \<and>
   validate_non_negative_int (PyStr (ascii ''1'')) (ascii ''schema'') =
     Inl (ValidationError (ascii ''schema must be a non-negative integer'')) \<and>
   encode_pointer_memo (PyStr (ascii ''bafkreiTESTCID1234567890'')) (ascii ''TASK_SUBMISSION'')
      (PyInt 1) (PyInt 1) (PyInt 1) =
     Inr ([10, 24] @ ascii ''bafkreiTESTCID1234567890'' @ [16, 1, 24, 6, 32, 1, 64, 1]) \<and>
   (0::int) \<le> 1 \<and> (1::int) \<le> 2 ^ 31 - 1"
  using validate_non_negative_int_range [of "PyInt 0" "ascii ''schema''"
      "PyStr (ascii ''bafkreiTESTCID1234567890'')" "ascii ''TASK_SUBMISSION''"
      "PyInt 1" "PyInt 1" "PyInt 1"
      "[10, 24] @ ascii ''bafkreiTESTCID1234567890'' @ [16, 1, 24, 6, 32, 1, 64, 1]"]
    memo_test_vector
  by (simp add: validate_non_negative_int_def str_of_nat_MAX) (simp add: MAX_INT32_def ascii_def)

section \<open>The transaction builder\<close>


lemma validation_block_Inr:
  "validation_block account destination cid schema flags = Inr () \<longleftrightarrow>
     fields_valid account destination cid schema flags"
  by (auto simp: validation_block_def fields_valid_def exn_bind_eq_Inr)



lemma build_unfold:
  "build_pointer_transaction U account cid kind destination schema flags amount_drops =
     exn_bind (reraise_ValueError (validation_block account destination cid schema flags))
       (\<lambda>_.
         exn_bind (encode_pointer_memo cid kind schema flags (PyInt 1)) (\<lambda>memo_payload.
         if \<not> isdigit U amount_drops
         then Inl (ValueError (ascii ''amount_drops must be a positive integer string'') None)
         else
           exn_bind (int_of_str U amount_drops) (\<lambda>n.
           if n \<le> 0
           then Inl (ValueError (ascii ''amount_drops must be a positive integer string'') None)
           else if length memo_payload > MAX_MEMO_BYTES
           then Inl (ValueError
                  (ascii ''MemoData too large: '' @ str_of_int (int (length memo_payload)) @
                   ascii '' bytes (max '' @ str_of_int (int MAX_MEMO_BYTES) @ ascii '')'')
                  None)
           else
             exn_bind (encode_utf8 DEFAULT_MEMO_TYPE) (\<lambda>memo_type.
             Inr \<lparr>TransactionType = ascii ''Payment'',
                  Account = account,
                  Destination = destination,
                  Amount = amount_drops,
                  Memos = [\<lparr>Memo = \<lparr>MemoType = hex memo_type,
                                     MemoData = hex memo_payload\<rparr>\<rparr>]\<rparr>))))"
  by (simp add: build_pointer_transaction_def validation_block_def)

lemma memo_type_utf8: "encode_utf8 DEFAULT_MEMO_TYPE = Inr (ascii ''pf.ptr'')"
  unfolding DEFAULT_MEMO_TYPE_def by (rule encode_utf8_ascii) (simp add: ascii_def)

lemma memo_type_hex: "hex (ascii ''pf.ptr'') = ascii ''70662e707472''"
  by (simp add: ascii_def hex_digit_def)

lemma max_memo_str: "str_of_int 1024 = ascii ''1024''"
  by (simp add: str_of_int_def str_of_nat.simps ascii_def)

lemma max_suffix: "ascii '' bytes (max '' @ ascii ''1024'' @ ascii '')'' = ascii '' bytes (max 1024)''"
  by (simp add: ascii_def)

lemma str_of_int_nat [simp]: "str_of_int (int n) = str_of_nat n"
  by (simp add: str_of_int_def)

lemma build_valid:
  assumes "fields_valid account destination cid schema flags"
      and "encode_pointer_memo cid kind schema flags (PyInt 1) = Inr p"
      and "isdigit U amount_drops"
      and "int_of_str U amount_drops = Inr n"
      and "0 < n"
  shows "build_pointer_transaction U account cid kind destination schema flags amount_drops =
           (if 1024 < length p
            then Inl (ValueError (ascii ''MemoData too large: '' @ str_of_nat (length p) @
                        ascii '' bytes (max 1024)'') None)
            else Inr (descriptor account destination amount_drops p))"
proof -
  from assms(1) have "validation_block account destination cid schema flags = Inr ()"
    by (simp add: validation_block_Inr)
  with assms(2-5) show ?thesis
    by (simp add: build_unfold memo_type_utf8 memo_type_hex max_memo_str max_suffix
          descriptor_def MAX_MEMO_BYTES_def)
qed

lemma build_Inr:
  assumes "build_pointer_transaction U account cid kind destination schema flags amount_drops = Inr tx"
  shows "fields_valid account destination cid schema flags \<and>
         isdigit U amount_drops \<and>
         (\<exists>n. int_of_str U amount_drops = Inr n \<and> 0 < n) \<and>
         (\<exists>p. encode_pointer_memo cid kind schema flags (PyInt 1) = Inr p \<and>
              length p \<le> 1024 \<and> tx = descriptor account destination amount_drops p)"
proof -
  from assms have v: "validation_block account destination cid schema flags = Inr ()"
    by (auto simp: build_unfold exn_bind_eq_Inr)
  then have fv: "fields_valid account destination cid schema flags"
    by (simp add: validation_block_Inr)
  from assms v obtain p where p: "encode_pointer_memo cid kind schema flags (PyInt 1) = Inr p"
    by (auto simp: build_unfold exn_bind_eq_Inr)
  from assms v p have d: "isdigit U amount_drops"
    by (auto simp: build_unfold split: if_splits)
  from assms v p d obtain n where n: "int_of_str U amount_drops = Inr n"
    by (auto simp: build_unfold exn_bind_eq_Inr)
  from assms v p d n have pos: "0 < n"
    by (auto simp: build_unfold split: if_splits)
  from build_valid [OF fv p d n pos] assms
  have "length p \<le> 1024 \<and> tx = descriptor account destination amount_drops p"
    by (auto split: if_splits)
  with fv d n pos p show ?thesis by auto
qed



lemma validate_default_destination: "validate_xrp_address DEFAULT_DESTINATION = Inr ()"
  by (simp add: DEFAULT_DESTINATION_def validate_xrp_address_def fullmatch_address_def
        ascii_def address_class_def)

lemma validate_not_an_address:
  "validate_xrp_address (PyStr (ascii ''not_an_address'')) =
     Inl (ValidationError (ascii ''invalid XRP address format: not_an_address''))"
  by (simp add: validate_xrp_address_def fullmatch_address_def ascii_def)

lemma validate_cid_empty:
  "validate_cid (PyStr []) = Inl (ValidationError (ascii ''cid must be a non-empty string''))"
  by (simp add: validate_cid_def)

lemma POINTER_KIND_None: "POINTER_KIND kind = None \<longleftrightarrow> kind \<noteq> ascii ''TASK_SUBMISSION''"
  by (simp add: POINTER_KIND_def)



text \<open>
  C7. The order of the checks. In \<open>encode_pointer_memo\<close> an unrecognized kind fails at
  once with an error that names it, whatever the CID, schema, flags and reserved value
  are (so the kind error surfaces when the CID is invalid too). In
  \<open>build_pointer_transaction\<close> the two addresses are checked before the CID: an invalid
  account, or a valid account with an invalid destination, gives the address error
  whatever the CID is.
\<close>

theorem fail_fast_order:
  "(kind \<noteq> ascii ''TASK_SUBMISSION'' \<longrightarrow>
      encode_pointer_memo cid kind schema flags unknown8 =
        Inl (ValueError (ascii ''Unknown pointer kind: '' @ kind) None)) \<and>
   (validate_xrp_address account = Inl (ValidationError m) \<longrightarrow>
      build_pointer_transaction U account cid kind destination schema flags amount_drops =
        Inl (ValueError m (Some (ValidationError m)))) \<and>
   (validate_xrp_address account = Inr () \<and>
    validate_xrp_address destination = Inl (ValidationError m) \<longrightarrow>
      build_pointer_transaction U account cid kind destination schema flags amount_drops =
        Inl (ValueError m (Some (ValidationError m))))"
proof (intro conjI impI)
  assume "kind \<noteq> ascii ''TASK_SUBMISSION''"
  then have "POINTER_KIND kind = None"
    by (simp add: POINTER_KIND_None)
  then show "encode_pointer_memo cid kind schema flags unknown8 =
        Inl (ValueError (ascii ''Unknown pointer kind: '' @ kind) None)"
    by (simp add: encode_pointer_memo_def)
next
  assume "validate_xrp_address account = Inl (ValidationError m)"
  then show "build_pointer_transaction U account cid kind destination schema flags amount_drops =
        Inl (ValueError m (Some (ValidationError m)))"
    by (simp add: build_unfold validation_block_def)
next
  assume "validate_xrp_address account = Inr () \<and>
    validate_xrp_address destination = Inl (ValidationError m)"
  then show "build_pointer_transaction U account cid kind destination schema flags amount_drops =
        Inl (ValueError m (Some (ValidationError m)))"
    by (simp add: build_unfold validation_block_def)
qed

theorem fail_fast_order_witness:
  "ascii ''BOGUS'' \<noteq> ascii ''TASK_SUBMISSION'' \<and>
   validate_cid (PyStr []) = Inl (ValidationError (ascii ''cid must be a non-empty string'')) \<and>
   encode_pointer_memo (PyStr []) (ascii ''BOGUS'') (PyInt 1) (PyInt 1) (PyInt 1) =
     Inl (ValueError (ascii ''Unknown pointer kind: BOGUS'') None) \<and>
   validate_xrp_address (PyStr (ascii ''not_an_address'')) =
     Inl (ValidationError (ascii ''invalid XRP address format: not_an_address'')) \<and>
   build_pointer_transaction sample_db (PyStr (ascii ''not_an_address'')) (PyStr [])
       (ascii ''BOGUS'') DEFAULT_DESTINATION (PyInt 1) (PyInt 1) DEFAULT_AMOUNT_DROPS =
     Inl (ValueError (ascii ''invalid XRP address format: not_an_address'')
            (Some (ValidationError (ascii ''invalid XRP address format: not_an_address'')))) \<and>
   validate_xrp_address DEFAULT_DESTINATION = Inr () \<and>
   build_pointer_transaction sample_db DEFAULT_DESTINATION (PyStr [])
       (ascii ''BOGUS'') (PyStr (ascii ''not_an_address'')) (PyInt 1) (PyInt 1)
       DEFAULT_AMOUNT_DROPS =
     Inl (ValueError (ascii ''invalid XRP address format: not_an_address'')
            (Some (ValidationError (ascii ''invalid XRP address format: not_an_address''))))"
  using
    fail_fast_order [of "ascii ''BOGUS''" "PyStr []" "PyInt 1" "PyInt 1" "PyInt 1"
      "PyStr (ascii ''not_an_address'')" "ascii ''invalid XRP address format: not_an_address''"
      sample_db DEFAULT_DESTINATION DEFAULT_AMOUNT_DROPS]
    fail_fast_order [of "ascii ''BOGUS''" "PyStr []" "PyInt 1" "PyInt 1" "PyInt 1"
      DEFAULT_DESTINATION "ascii ''invalid XRP address format: not_an_address''"
      sample_db "PyStr (ascii ''not_an_address'')" DEFAULT_AMOUNT_DROPS]
  by (simp add: validate_default_destination validate_not_an_address validate_cid_empty)
     (simp add: ascii_def)




lemma hex_alphabet: "set (ascii ''0123456789abcdef'') = {48..<58} \<union> {97..<103}"
proof -
  have "ascii ''0123456789abcdef'' = [48..<58] @ [97..<103]"
    by (simp add: ascii_def)
  then show ?thesis
    by (simp only: set_append set_upt)
qed

lemma hex_digit_alphabet: "d < 16 \<Longrightarrow> hex_digit d \<in> set (ascii ''0123456789abcdef'')"
  unfolding hex_alphabet by (auto simp: hex_digit_def)

lemma unhex_hex_digit: "d < 16 \<Longrightarrow> unhex_digit (hex_digit d) = Some d"
  by (auto simp: hex_digit_def unhex_digit_def)

lemma length_hex: "length (hex bs) = 2 * length bs"
  by (induction bs) simp_all

lemma hex_chars:
  "list_all (\<lambda>b. b < 256) bs \<Longrightarrow> list_all (\<lambda>c. c \<in> set (ascii ''0123456789abcdef'')) (hex bs)"
proof (induction bs)
  case Nil
  show ?case by simp
next
  case (Cons b bs)
  then have "b < 256" by simp
  then have "b div 16 < 16" "b mod 16 < 16" by presburger+
  with Cons show ?case
    by (simp add: hex_digit_alphabet)
qed

lemma unhex_hex: "list_all (\<lambda>b. b < 256) bs \<Longrightarrow> unhex (hex bs) = Some bs"
proof (induction bs)
  case Nil
  show ?case by simp
next
  case (Cons b bs)
  then have "b < 256" by simp
  then have "b div 16 < 16" "b mod 16 < 16" by presburger+
  with Cons show ?case
    by (simp add: unhex_hex_digit)
qed

lemma utf8_char_bytes: "utf8_char c = Inr b \<Longrightarrow> list_all (\<lambda>x. x < 256) b"
  by (auto simp: utf8_char_def split: if_splits)

lemma encode_utf8_bytes: "encode_utf8 s = Inr e \<Longrightarrow> list_all (\<lambda>x. x < 256) e"
proof (induction s arbitrary: e)
  case Nil
  then show ?case by simp
next
  case (Cons c s)
  then obtain b bs where "utf8_char c = Inr b" "encode_utf8 s = Inr bs" "e = b @ bs"
    by (auto simp: exn_bind_eq_Inr)
  with Cons.IH [of bs] show ?case
    by (simp add: utf8_char_bytes)
qed

lemma encode_pointer_memo_bytes:
  assumes "encode_pointer_memo cid kind schema flags unknown8 = Inr p"
  shows "list_all (\<lambda>x. x < 256) p"
proof -
  from encode_pointer_memo_Inr [OF assms] obtain encoded where
    h: "POINTER_KIND kind = Some 6" "validate_cid cid = Inr ()"
       "validate_non_negative_int schema (ascii ''schema'') = Inr ()"
       "validate_non_negative_int flags (ascii ''flags'') = Inr ()"
       "unknown8 = PyNone \<or> validate_non_negative_int unknown8 (ascii ''unknown8'') = Inr ()"
       "encode_utf8 (the_str cid) = Inr encoded"
    by auto
  from encode_pointer_memo_ok [OF h] assms
  have "p = [10] @ leb128 (length encoded) @ encoded @
                [16] @ leb128 (nat (the_int schema)) @
                [24] @ leb128 (nat 6) @
                [32] @ leb128 (nat (the_int flags)) @
                (if unknown8 = PyNone then [] else [64] @ leb128 (nat (the_int unknown8)))"
    by simp
  then show ?thesis
    using encode_utf8_bytes [OF h(6)] by (simp add: leb128_bytes)
qed

lemma isdigit_one: "isdigit sample_db DEFAULT_AMOUNT_DROPS"
  by (simp add: isdigit_def sample_db_def DEFAULT_AMOUNT_DROPS_def ascii_def)

lemma int_of_str_one: "int_of_str sample_db DEFAULT_AMOUNT_DROPS = Inr 1"
  by (simp add: int_of_str_def MAX_STR_DIGITS_def sample_db_def DEFAULT_AMOUNT_DROPS_def
        ascii_def)

lemma fields_valid_test:
  "fields_valid DEFAULT_DESTINATION DEFAULT_DESTINATION
     (PyStr (ascii ''bafkreiTESTCID1234567890'')) (PyInt 1) (PyInt 1)"
  by (simp add: fields_valid_def validate_default_destination)
     (simp add: validate_cid_def startswith_def CID_PREFIXES_def ascii_def)

lemma build_test_vector:
  "build_pointer_transaction sample_db DEFAULT_DESTINATION
      (PyStr (ascii ''bafkreiTESTCID1234567890'')) (ascii ''TASK_SUBMISSION'')
      DEFAULT_DESTINATION (PyInt 1) (PyInt 1) DEFAULT_AMOUNT_DROPS =
   Inr (descriptor DEFAULT_DESTINATION DEFAULT_DESTINATION DEFAULT_AMOUNT_DROPS
          ([10, 24] @ ascii ''bafkreiTESTCID1234567890'' @ [16, 1, 24, 6, 32, 1, 64, 1]))"
  using build_valid [OF fields_valid_test memo_test_vector isdigit_one int_of_str_one]
  by (simp add: ascii_def)

lemma hex_test_vector:
  "hex ([10, 24] @ ascii ''bafkreiTESTCID1234567890'' @ [16, 1, 24, 6, 32, 1, 64, 1]) =
     ascii ''0a186261666b72656954455354434944313233343536373839301001180620014001''"
  by (simp add: ascii_def hex_digit_def)



text \<open>
  C2. Every descriptor \<open>build_pointer_transaction\<close> returns has TransactionType
  \<open>Payment\<close>, the account, the destination and the amount string as they were given,
  and exactly one memo: its MemoType is \<open>70662e707472\<close>, the lowercase hexadecimal of
  the ASCII bytes of \<open>pf.ptr\<close>, and its MemoData is the hexadecimal of
  \<open>encode_pointer_memo(cid, kind, schema, flags)\<close> with the reserved field at its default
  1: two digits of \<open>0123456789abcdef\<close> per byte and nothing else, which read back give
  the payload.
\<close>

theorem build_descriptor:
  "build_pointer_transaction U account cid kind destination schema flags amount_drops = Inr tx \<longrightarrow>
     TransactionType tx = ascii ''Payment'' \<and>
     Account tx = account \<and>
     Destination tx = destination \<and>
     Amount tx = amount_drops \<and>
     (\<exists>p. encode_pointer_memo cid kind schema flags (PyInt 1) = Inr p \<and>
          Memos tx = [\<lparr>Memo = \<lparr>MemoType = ascii ''70662e707472'', MemoData = hex p\<rparr>\<rparr>] \<and>
          unhex (ascii ''70662e707472'') = Some (ascii ''pf.ptr'') \<and>
          unhex (hex p) = Some p \<and>
          length (hex p) = 2 * length p \<and>
          list_all (\<lambda>c. c \<in> set (ascii ''0123456789abcdef'')) (hex p))"
proof
  assume "build_pointer_transaction U account cid kind destination schema flags amount_drops = Inr tx"
  from build_Inr [OF this] obtain p where
    p: "encode_pointer_memo cid kind schema flags (PyInt 1) = Inr p"
    and tx: "tx = descriptor account destination amount_drops p"
    by auto
  have b: "list_all (\<lambda>x. x < 256) p"
    using p by (rule encode_pointer_memo_bytes)
  have t: "unhex (ascii ''70662e707472'') = Some (ascii ''pf.ptr'')"
    by (simp add: ascii_def unhex_digit_def)
  from tx have "TransactionType tx = ascii ''Payment''" "Account tx = account"
    "Destination tx = destination" "Amount tx = amount_drops"
    "Memos tx = [\<lparr>Memo = \<lparr>MemoType = ascii ''70662e707472'', MemoData = hex p\<rparr>\<rparr>]"
    by (simp_all add: descriptor_def)
  with p t b show "TransactionType tx = ascii ''Payment'' \<and>
     Account tx = account \<and>
     Destination tx = destination \<and>
     Amount tx = amount_drops \<and>
     (\<exists>p. encode_pointer_memo cid kind schema flags (PyInt 1) = Inr p \<and>
          Memos tx = [\<lparr>Memo = \<lparr>MemoType = ascii ''70662e707472'', MemoData = hex p\<rparr>\<rparr>] \<and>
          unhex (ascii ''70662e707472'') = Some (ascii ''pf.ptr'') \<and>
          unhex (hex p) = Some p \<and>
          length (hex p) = 2 * length p \<and>
          list_all (\<lambda>c. c \<in> set (ascii ''0123456789abcdef'')) (hex p))"
    by (simp add: unhex_hex length_hex hex_chars)
qed

theorem build_descriptor_witness:
  "build_pointer_transaction sample_db DEFAULT_DESTINATION
      (PyStr (ascii ''bafkreiTESTCID1234567890'')) (ascii ''TASK_SUBMISSION'')
      DEFAULT_DESTINATION (PyInt 1) (PyInt 1) DEFAULT_AMOUNT_DROPS =
     Inr \<lparr>TransactionType = ascii ''Payment'',
          Account = PyStr (ascii ''rwdm72S9YVKkZjeADKU2bbUMuY4vPnSfH7''),
          Destination = PyStr (ascii ''rwdm72S9YVKkZjeADKU2bbUMuY4vPnSfH7''),
          Amount = ascii ''1'',
          Memos = [\<lparr>Memo = \<lparr>MemoType = ascii ''70662e707472'',
            MemoData = ascii ''0a186261666b72656954455354434944313233343536373839301001180620014001''\<rparr>\<rparr>]\<rparr> \<and>
   encode_pointer_memo (PyStr (ascii ''bafkreiTESTCID1234567890'')) (ascii ''TASK_SUBMISSION'')
      (PyInt 1) (PyInt 1) (PyInt 1) =
     Inr ([10, 24] @ ascii ''bafkreiTESTCID1234567890'' @ [16, 1, 24, 6, 32, 1, 64, 1]) \<and>
   hex ([10, 24] @ ascii ''bafkreiTESTCID1234567890'' @ [16, 1, 24, 6, 32, 1, 64, 1]) =
     ascii ''0a186261666b72656954455354434944313233343536373839301001180620014001''"
  using build_descriptor [of sample_db DEFAULT_DESTINATION
      "PyStr (ascii ''bafkreiTESTCID1234567890'')" "ascii ''TASK_SUBMISSION''"
      DEFAULT_DESTINATION "PyInt 1" "PyInt 1" DEFAULT_AMOUNT_DROPS
      "descriptor DEFAULT_DESTINATION DEFAULT_DESTINATION DEFAULT_AMOUNT_DROPS
          ([10, 24] @ ascii ''bafkreiTESTCID1234567890'' @ [16, 1, 24, 6, 32, 1, 64, 1])"]
    build_test_vector memo_test_vector hex_test_vector
  by (simp add: descriptor_def DEFAULT_DESTINATION_def DEFAULT_AMOUNT_DROPS_def)

section \<open>The size of the memo\<close>


lemma utf8_char_length: "utf8_char c = Inr b \<Longrightarrow> 1 \<le> length b"
  by (auto simp: utf8_char_def split: if_splits)

lemma encode_utf8_length: "encode_utf8 s = Inr e \<Longrightarrow> length s \<le> length e"
proof (induction s arbitrary: e)
  case Nil
  then show ?case by simp
next
  case (Cons c s)
  then obtain b bs where "utf8_char c = Inr b" "encode_utf8 s = Inr bs" "e = b @ bs"
    by (auto simp: exn_bind_eq_Inr)
  with Cons.IH [of bs] utf8_char_length [of c b] show ?case
    by simp
qed

lemma default_memo:
  assumes "validate_cid cid = Inr ()" and "encode_utf8 (the_str cid) = Inr e"
  shows "encode_pointer_memo cid (ascii ''TASK_SUBMISSION'') (PyInt 1) (PyInt 1) (PyInt 1) =
           Inr ([10] @ leb128 (length e) @ e @ [16, 1, 24, 6, 32, 1, 64, 1])"
  using encode_pointer_memo_ok [of "ascii ''TASK_SUBMISSION''" 6 cid "PyInt 1" "PyInt 1"
      "PyInt 1" e] assms
  by (simp add: the_int_def)

lemma str_of_nat_1025: "str_of_nat 1025 = ascii ''1025''"
  by (simp add: str_of_nat.simps ascii_def)

lemma too_large_message:
  "ascii ''MemoData too large: '' @ str_of_nat 1025 @ ascii '' bytes (max 1024)'' =
   ascii ''MemoData too large: 1025 bytes (max 1024)''"
  by (simp add: str_of_nat_1025) (simp add: ascii_def)

lemma leb128_1014: "leb128 1014 = [246, 7]"
  by (simp add: leb128_big)

lemma fields_valid_ascii_cid:
  "16 \<le> n \<Longrightarrow> fields_valid DEFAULT_DESTINATION DEFAULT_DESTINATION (PyStr (ascii_cid n))
     (PyInt 1) (PyInt 1)"
  by (simp add: fields_valid_def validate_default_destination validate_cid_ascii_cid)

lemma memo_ascii_cid:
  "16 \<le> n \<Longrightarrow>
   encode_pointer_memo (PyStr (ascii_cid n)) (ascii ''TASK_SUBMISSION'') (PyInt 1) (PyInt 1)
      (PyInt 1) =
     Inr ([10] @ leb128 (n + 4) @ ascii_cid n @ [16, 1, 24, 6, 32, 1, 64, 1])"
  using default_memo [of "PyStr (ascii_cid n)" "ascii_cid n"]
  by (simp add: validate_cid_ascii_cid the_str_def encode_utf8_ascii_cid length_ascii_cid)


text \<open>
  C4. \<open>encode_pointer_memo\<close> has no size ceiling: whenever the kind is recognized, the
  fields pass validation and the CID has a UTF-8 encoding it returns the payload,
  however long (longer than the encoded CID). \<open>build_pointer_transaction\<close>, on inputs
  that pass every other check (addresses, CID, schema, flags, kind, amount), fails exactly
  when the payload is longer than 1024 bytes; its message then gives the payload's length
  and the maximum 1024; at 1024 bytes or fewer it returns a descriptor.
\<close>

theorem memo_size_ceiling:
  "(POINTER_KIND kind = Some code \<and>
    validate_cid cid = Inr () \<and>
    validate_non_negative_int schema (ascii ''schema'') = Inr () \<and>
    validate_non_negative_int flags (ascii ''flags'') = Inr () \<and>
    (unknown8 = PyNone \<or> validate_non_negative_int unknown8 (ascii ''unknown8'') = Inr ()) \<and>
    encode_utf8 (the_str cid) = Inr encoded \<longrightarrow>
      (\<exists>q. encode_pointer_memo cid kind schema flags unknown8 = Inr q \<and>
           length encoded < length q)) \<and>
   (fields_valid account destination cid schema flags \<and>
    encode_pointer_memo cid kind schema flags (PyInt 1) = Inr p \<and>
    isdigit U amount_drops \<and> int_of_str U amount_drops = Inr n \<and> 0 < n \<longrightarrow>
      (isl (build_pointer_transaction U account cid kind destination schema flags amount_drops)
         \<longleftrightarrow> 1024 < length p) \<and>
      (1024 < length p \<longrightarrow>
         build_pointer_transaction U account cid kind destination schema flags amount_drops =
           Inl (ValueError (ascii ''MemoData too large: '' @ str_of_nat (length p) @
                  ascii '' bytes (max 1024)'') None)) \<and>
      (length p \<le> 1024 \<longrightarrow>
         (\<exists>tx. build_pointer_transaction U account cid kind destination schema flags
                 amount_drops = Inr tx)))"
proof (intro conjI impI)
  assume h: "POINTER_KIND kind = Some code \<and>
    validate_cid cid = Inr () \<and>
    validate_non_negative_int schema (ascii ''schema'') = Inr () \<and>
    validate_non_negative_int flags (ascii ''flags'') = Inr () \<and>
    (unknown8 = PyNone \<or> validate_non_negative_int unknown8 (ascii ''unknown8'') = Inr ()) \<and>
    encode_utf8 (the_str cid) = Inr encoded"
  then have "encode_pointer_memo cid kind schema flags unknown8 =
           Inr ([10] @ leb128 (length encoded) @ encoded @
                [16] @ leb128 (nat (the_int schema)) @
                [24] @ leb128 (nat code) @
                [32] @ leb128 (nat (the_int flags)) @
                (if unknown8 = PyNone then [] else [64] @ leb128 (nat (the_int unknown8))))"
    by (intro encode_pointer_memo_ok) simp_all
  then show "\<exists>q. encode_pointer_memo cid kind schema flags unknown8 = Inr q \<and>
           length encoded < length q"
    by simp
next
  assume h: "fields_valid account destination cid schema flags \<and>
    encode_pointer_memo cid kind schema flags (PyInt 1) = Inr p \<and>
    isdigit U amount_drops \<and> int_of_str U amount_drops = Inr n \<and> 0 < n"
  then have h1: "fields_valid account destination cid schema flags"
    and h2: "encode_pointer_memo cid kind schema flags (PyInt 1) = Inr p"
    and h3: "isdigit U amount_drops" and h4: "int_of_str U amount_drops = Inr n"
    and h5: "0 < n"
    by simp_all
  have b: "build_pointer_transaction U account cid kind destination schema flags amount_drops =
           (if 1024 < length p
            then Inl (ValueError (ascii ''MemoData too large: '' @ str_of_nat (length p) @
                        ascii '' bytes (max 1024)'') None)
            else Inr (descriptor account destination amount_drops p))"
    by (rule build_valid [OF h1 h2 h3 h4 h5])
  show "isl (build_pointer_transaction U account cid kind destination schema flags amount_drops)
         \<longleftrightarrow> 1024 < length p"
    by (simp add: b)
  show "build_pointer_transaction U account cid kind destination schema flags amount_drops =
           Inl (ValueError (ascii ''MemoData too large: '' @ str_of_nat (length p) @
                  ascii '' bytes (max 1024)'') None)" if "1024 < length p"
    using that by (simp add: b)
  show "\<exists>tx. build_pointer_transaction U account cid kind destination schema flags
                 amount_drops = Inr tx" if "length p \<le> 1024"
    using that by (simp add: b)
qed

theorem memo_size_ceiling_witness:
  "POINTER_KIND (ascii ''TASK_SUBMISSION'') = Some 6 \<and>
   fields_valid DEFAULT_DESTINATION DEFAULT_DESTINATION (PyStr (ascii_cid 1010)) (PyInt 1) (PyInt 1) \<and>
   validate_non_negative_int (PyInt 1) (ascii ''unknown8'') = Inr () \<and>
   encode_utf8 (the_str (PyStr (ascii_cid 1010))) = Inr (ascii_cid 1010) \<and>
   encode_pointer_memo (PyStr (ascii_cid 1010)) (ascii ''TASK_SUBMISSION'') (PyInt 1) (PyInt 1)
      (PyInt 1) = Inr ([10, 246, 7] @ ascii_cid 1010 @ [16, 1, 24, 6, 32, 1, 64, 1]) \<and>
   length ([10, 246, 7] @ ascii_cid 1010 @ [16, 1, 24, 6, 32, 1, 64, 1]) = 1025 \<and>
   isdigit sample_db DEFAULT_AMOUNT_DROPS \<and> int_of_str sample_db DEFAULT_AMOUNT_DROPS = Inr 1 \<and>
   build_pointer_transaction sample_db DEFAULT_DESTINATION (PyStr (ascii_cid 1010))
      (ascii ''TASK_SUBMISSION'') DEFAULT_DESTINATION (PyInt 1) (PyInt 1) DEFAULT_AMOUNT_DROPS =
     Inl (ValueError (ascii ''MemoData too large: 1025 bytes (max 1024)'') None)"
  using memo_size_ceiling [of "ascii ''TASK_SUBMISSION''" 6 "PyStr (ascii_cid 1010)" "PyInt 1"
      "PyInt 1" "PyInt 1" "ascii_cid 1010" DEFAULT_DESTINATION DEFAULT_DESTINATION
      "[10, 246, 7] @ ascii_cid 1010 @ [16, 1, 24, 6, 32, 1, 64, 1]" sample_db
      DEFAULT_AMOUNT_DROPS 1]
    fields_valid_ascii_cid [of 1010] memo_ascii_cid [of 1010]
  by (simp add: isdigit_one int_of_str_one the_str_def encode_utf8_ascii_cid length_ascii_cid
        leb128_1014 too_large_message)

lemma default_memo_size_cases:
  "(length e < 128 \<longrightarrow> length (leb128 (length e)) + length e + 9 = length e + 10) \<and>
   (128 \<le> length e \<and> length e \<le> 16383 \<longrightarrow>
      length (leb128 (length e)) + length e + 9 = length e + 11) \<and>
   (1024 < length (leb128 (length e)) + length e + 9 \<longleftrightarrow> 1014 \<le> length e)"
proof -
  consider "length e < 128" | "128 \<le> length e" "length e < 16384" | "16384 \<le> length e"
    by linarith
  then show ?thesis
  proof cases
    case 1
    then show ?thesis by (simp add: leb128_length_1)
  next
    case 2
    then show ?thesis by (auto simp: leb128_length_2)
  next
    case 3
    then have "2 \<le> length (leb128 (length e))"
      by (intro leb128_length_ge_2) simp
    with 3 show ?thesis by simp
  qed
qed

lemma leb128_1013: "leb128 1013 = [245, 7]"
  by (simp add: leb128_big)

lemma memo_accented_cid:
  "16 \<le> n \<Longrightarrow>
   encode_pointer_memo (PyStr (accented_cid n)) (ascii ''TASK_SUBMISSION'') (PyInt 1) (PyInt 1)
      (PyInt 1) =
     Inr ([10] @ leb128 (2 * n + 4) @ accented_bytes n @ [16, 1, 24, 6, 32, 1, 64, 1])"
  using default_memo [of "PyStr (accented_cid n)" "accented_bytes n"]
  by (simp add: validate_cid_accented the_str_def encode_utf8_accented length_accented)

lemma fields_valid_accented_cid:
  "16 \<le> n \<Longrightarrow> fields_valid DEFAULT_DESTINATION DEFAULT_DESTINATION (PyStr (accented_cid n))
     (PyInt 1) (PyInt 1)"
  by (simp add: fields_valid_def validate_default_destination validate_cid_accented)


text \<open>
  C10, as amended. With the defaults of \<open>build_pointer_transaction\<close> (kind
  TASK_SUBMISSION, schema 1, flags 1, reserved 1), the memo of a valid CID whose UTF-8
  encoding has \<open>B\<close> bytes is \<open>B + 10\<close> bytes long when \<open>B < 128\<close> and \<open>B + 11\<close> bytes
  long when \<open>128 \<le> B \<le> 16383\<close>; it is longer than 1024 bytes exactly when
  \<open>B \<ge> 1014\<close>. \<open>B\<close> is at least the number of characters of the CID, and equal to
  it when the CID is ASCII. So, on valid addresses and a valid amount, the build returns a
  descriptor for every valid CID of fewer than 1014 bytes and raises the size error for
  every one of 1014 bytes or more.
\<close>

theorem default_memo_size:
  "validate_cid cid = Inr () \<and> encode_utf8 (the_str cid) = Inr e \<longrightarrow>
     (\<exists>p. encode_pointer_memo cid (ascii ''TASK_SUBMISSION'') (PyInt 1) (PyInt 1) (PyInt 1) = Inr p \<and>
          (length e < 128 \<longrightarrow> length p = length e + 10) \<and>
          (128 \<le> length e \<and> length e \<le> 16383 \<longrightarrow> length p = length e + 11) \<and>
          (1024 < length p \<longleftrightarrow> 1014 \<le> length e) \<and>
          length (the_str cid) \<le> length e \<and>
          (list_all (\<lambda>c. c < 128) (the_str cid) \<longrightarrow> length e = length (the_str cid)) \<and>
          (validate_xrp_address account = Inr () \<and> validate_xrp_address destination = Inr () \<and>
           isdigit U amount_drops \<and> int_of_str U amount_drops = Inr n \<and> 0 < n \<longrightarrow>
             (length e < 1014 \<longrightarrow>
                (\<exists>tx. build_pointer_transaction U account cid (ascii ''TASK_SUBMISSION'')
                        destination (PyInt 1) (PyInt 1) amount_drops = Inr tx)) \<and>
             (1014 \<le> length e \<longrightarrow>
                build_pointer_transaction U account cid (ascii ''TASK_SUBMISSION'')
                  destination (PyInt 1) (PyInt 1) amount_drops =
                  Inl (ValueError (ascii ''MemoData too large: '' @ str_of_nat (length p) @
                         ascii '' bytes (max 1024)'') None))))"
  (is "?valid \<longrightarrow> ?concl")
proof
  assume h: "validate_cid cid = Inr () \<and> encode_utf8 (the_str cid) = Inr e"
  define p where "p = [10] @ leb128 (length e) @ e @ [16, 1, 24, 6, 32, 1, 64, 1]"
  from h have enc: "encode_pointer_memo cid (ascii ''TASK_SUBMISSION'') (PyInt 1) (PyInt 1)
      (PyInt 1) = Inr p"
    unfolding p_def by (intro default_memo) simp_all
  have len: "length p = length (leb128 (length e)) + length e + 9"
    by (simp add: p_def)
  note sz = default_memo_size_cases [of e, folded len]
  have l1: "length (the_str cid) \<le> length e"
    using h by (intro encode_utf8_length) simp
  have l2: "length e = length (the_str cid)" if "list_all (\<lambda>c. c < 128) (the_str cid)"
    using encode_utf8_ascii [OF that] h by simp
  have b: "(length e < 1014 \<longrightarrow>
                (\<exists>tx. build_pointer_transaction U account cid (ascii ''TASK_SUBMISSION'')
                        destination (PyInt 1) (PyInt 1) amount_drops = Inr tx)) \<and>
             (1014 \<le> length e \<longrightarrow>
                build_pointer_transaction U account cid (ascii ''TASK_SUBMISSION'')
                  destination (PyInt 1) (PyInt 1) amount_drops =
                  Inl (ValueError (ascii ''MemoData too large: '' @ str_of_nat (length p) @
                         ascii '' bytes (max 1024)'') None))"
    if a: "validate_xrp_address account = Inr () \<and> validate_xrp_address destination = Inr () \<and>
           isdigit U amount_drops \<and> int_of_str U amount_drops = Inr n \<and> 0 < n"
  proof -
    from a h have fv: "fields_valid account destination cid (PyInt 1) (PyInt 1)"
      by (simp add: fields_valid_def)
    from a have d: "isdigit U amount_drops" and i: "int_of_str U amount_drops = Inr n"
      and n: "0 < n" by simp_all
    from build_valid [OF fv enc d i n] sz show ?thesis
      by auto
  qed
  from enc sz l1 l2 b show ?concl
    by (intro exI [of _ p]) simp
qed


theorem default_memo_size_witness:
  "validate_cid (PyStr (ascii_cid 1009)) = Inr () \<and>
   encode_utf8 (the_str (PyStr (ascii_cid 1009))) = Inr (ascii_cid 1009) \<and>
   list_all (\<lambda>c. c < 128) (the_str (PyStr (ascii_cid 1009))) \<and>
   length (ascii_cid 1009) = 1013 \<and>
   encode_pointer_memo (PyStr (ascii_cid 1009)) (ascii ''TASK_SUBMISSION'') (PyInt 1) (PyInt 1)
      (PyInt 1) = Inr ([10, 245, 7] @ ascii_cid 1009 @ [16, 1, 24, 6, 32, 1, 64, 1]) \<and>
   length ([10, 245, 7] @ ascii_cid 1009 @ [16, 1, 24, 6, 32, 1, 64, 1]) = 1013 + 11 \<and>
   validate_xrp_address DEFAULT_DESTINATION = Inr () \<and>
   isdigit sample_db DEFAULT_AMOUNT_DROPS \<and> int_of_str sample_db DEFAULT_AMOUNT_DROPS = Inr 1 \<and>
   build_pointer_transaction sample_db DEFAULT_DESTINATION (PyStr (ascii_cid 1009))
      (ascii ''TASK_SUBMISSION'') DEFAULT_DESTINATION (PyInt 1) (PyInt 1) DEFAULT_AMOUNT_DROPS =
     Inr (descriptor DEFAULT_DESTINATION DEFAULT_DESTINATION DEFAULT_AMOUNT_DROPS
            ([10, 245, 7] @ ascii_cid 1009 @ [16, 1, 24, 6, 32, 1, 64, 1]))"
  using default_memo_size [of "PyStr (ascii_cid 1009)" "ascii_cid 1009" DEFAULT_DESTINATION
      DEFAULT_DESTINATION sample_db DEFAULT_AMOUNT_DROPS 1]
    memo_ascii_cid [of 1009]
    build_valid [OF fields_valid_ascii_cid [of 1009] _ isdigit_one int_of_str_one,
      of "ascii ''TASK_SUBMISSION''"
         "[10, 245, 7] @ ascii_cid 1009 @ [16, 1, 24, 6, 32, 1, 64, 1]"]
  by (simp add: validate_cid_ascii_cid the_str_def encode_utf8_ascii_cid list_all_ascii_cid
        length_ascii_cid leb128_1013 validate_default_destination isdigit_one int_of_str_one)


text \<open>
  C10 as stated, in characters, fails on a CID that is not ASCII: a valid CID of 20
  characters gives a memo of 46 bytes, not 30, and a valid CID of 509 characters, fewer
  than 1014, takes the size-ceiling branch.
\<close>

theorem default_memo_size_counterexample:
  "validate_cid (PyStr (accented_cid 16)) = Inr () \<and>
   length (accented_cid 16) = 20 \<and>
   encode_pointer_memo (PyStr (accented_cid 16)) (ascii ''TASK_SUBMISSION'') (PyInt 1) (PyInt 1)
      (PyInt 1) = Inr ([10, 36] @ accented_bytes 16 @ [16, 1, 24, 6, 32, 1, 64, 1]) \<and>
   length ([10, 36] @ accented_bytes 16 @ [16, 1, 24, 6, 32, 1, 64, 1]) = 46 \<and>
   validate_cid (PyStr (accented_cid 505)) = Inr () \<and>
   length (accented_cid 505) = 509 \<and>
   build_pointer_transaction sample_db DEFAULT_DESTINATION (PyStr (accented_cid 505))
      (ascii ''TASK_SUBMISSION'') DEFAULT_DESTINATION (PyInt 1) (PyInt 1) DEFAULT_AMOUNT_DROPS =
     Inl (ValueError (ascii ''MemoData too large: 1025 bytes (max 1024)'') None)"
  using memo_accented_cid [of 16] memo_accented_cid [of 505]
    build_valid [OF fields_valid_accented_cid [of 505] _ isdigit_one int_of_str_one,
      of "ascii ''TASK_SUBMISSION''"
         "[10, 246, 7] @ accented_bytes 505 @ [16, 1, 24, 6, 32, 1, 64, 1]"]
  by (simp add: validate_cid_accented length_accented leb128_1014 too_large_message)

section \<open>The amount\<close>

lemma decimal_value_eq:
  "decimal_value U acc s =
     (if list_all (\<lambda>c. to_decimal U c \<noteq> None) s
      then Some (foldl (\<lambda>a c. 10 * a + the (to_decimal U c)) acc s)
      else None)"
  by (induction s arbitrary: acc) (auto split: option.splits)

lemma limit_prefix:
  "ascii ''Exceeds the limit ('' @ str_of_int (int MAX_STR_DIGITS) @
     ascii '' digits) for integer string conversion: value has '' @ rest =
   ascii ''Exceeds the limit (4300 digits) for integer string conversion: value has '' @ rest"
  by (simp add: MAX_STR_DIGITS_def str_of_int_def str_of_nat.simps ascii_def)

lemma int_of_str_all_decimal:
  assumes "list_all (\<lambda>c. to_decimal U c \<noteq> None) s"
  shows "int_of_str U s =
     (if 4300 < length s
      then Inl (ValueError
             (ascii ''Exceeds the limit (4300 digits) for integer string conversion: value has '' @
              str_of_nat (length s) @
              ascii '' digits; use sys.set_int_max_str_digits() to increase the limit'')
             None)
      else if s = []
      then Inl (ValueError (ascii ''invalid literal for int() with base 10: '' @ [39, 39]) None)
      else Inr (int (decimal_number U s)))"
proof -
  have tw: "takeWhile (\<lambda>c. to_decimal U c \<noteq> None) s = s"
    using assms by (simp add: list_all_iff del: not_None_eq)
  have dv: "decimal_value U 0 s = Some (decimal_number U s)"
    using assms by (simp add: decimal_value_eq decimal_number_def del: not_None_eq)
  show ?thesis
    unfolding int_of_str_def tw dv Let_def limit_prefix
    by (simp add: MAX_STR_DIGITS_def)
qed

lemma int_of_str_not_decimal:
  assumes "\<not> list_all (\<lambda>c. to_decimal U c \<noteq> None) s"
  shows "isl (int_of_str U s)"
proof -
  have dv: "decimal_value U 0 s = None"
    using assms by (simp add: decimal_value_eq del: not_None_eq)
  show ?thesis
    unfolding int_of_str_def dv Let_def by simp
qed

lemma int_of_str_Inr:
  assumes "int_of_str U s = Inr n"
  shows "s \<noteq> []" "list_all (\<lambda>c. to_decimal U c \<noteq> None) s" "n = int (decimal_number U s)"
    "length s \<le> 4300"
proof -
  show all: "list_all (\<lambda>c. to_decimal U c \<noteq> None) s"
    using int_of_str_not_decimal [of U s] assms by auto
  from int_of_str_all_decimal [OF all] assms
  show "s \<noteq> []" "n = int (decimal_number U s)" "length s \<le> 4300"
    by (auto split: if_splits)
qed

lemma int_of_str_decimal:
  assumes "s \<noteq> []" and "list_all (\<lambda>c. to_decimal U c \<noteq> None) s" and "length s \<le> 4300"
  shows "int_of_str U s = Inr (int (decimal_number U s))"
  using int_of_str_all_decimal [OF assms(2)] assms(1,3) by simp

lemma int_of_str_limit:
  assumes "list_all (\<lambda>c. to_decimal U c \<noteq> None) s" and "4300 < length s"
  shows "int_of_str U s =
     Inl (ValueError
           (ascii ''Exceeds the limit (4300 digits) for integer string conversion: value has '' @
            str_of_nat (length s) @
            ascii '' digits; use sys.set_int_max_str_digits() to increase the limit'')
           None)"
  using int_of_str_all_decimal [OF assms(1)] assms(2) by simp

lemma amount_check_imp_positive_decimal:
  assumes "isdigit U a" and "int_of_str U a = Inr n" and "0 < n"
  shows "positive_decimal_string U a"
  using int_of_str_Inr [OF assms(2)] assms(3)
  by (simp add: positive_decimal_string_def)

lemma db_ok_ascii:
  assumes "db_ok U" and "c < 128"
  shows "to_decimal U c = (if ascii_digit c then Some (c - 48) else None)"
    "to_digit U c = (if ascii_digit c then Some (c - 48) else None)"
  using assms by (simp_all add: db_ok_def ascii_digit_def)

lemma ascii_digit_ascii: "ascii_digit c \<Longrightarrow> c < 128"
  by (simp add: ascii_digit_def)

lemma decimal_ascii_digits:
  assumes "db_ok U" and "list_all (\<lambda>c. c < 128) a"
  shows "list_all (\<lambda>c. to_decimal U c \<noteq> None) a \<longleftrightarrow> list_all ascii_digit a"
  using assms(2) by (induction a) (auto simp: db_ok_ascii [OF assms(1)])

lemma digit_ascii_digits:
  assumes "db_ok U" and "list_all (\<lambda>c. c < 128) a"
  shows "list_all (\<lambda>c. to_digit U c \<noteq> None) a \<longleftrightarrow> list_all ascii_digit a"
  using assms(2) by (induction a) (auto simp: db_ok_ascii [OF assms(1)])

lemma decimal_number_digits:
  assumes "db_ok U" and "list_all ascii_digit a"
  shows "decimal_number U a = digits_number a"
  unfolding decimal_number_def digits_number_def
proof (rule foldl_cong)
  show "\<And>acc c. c \<in> set a \<Longrightarrow> 10 * acc + the (to_decimal U c) = 10 * acc + (c - 48)"
    using assms(2) by (auto simp: list_all_iff db_ok_ascii [OF assms(1)] ascii_digit_ascii)
qed simp_all

lemma list_all_ascii_digit_ascii: "list_all ascii_digit a \<Longrightarrow> list_all (\<lambda>c. c < 128) a"
  by (auto simp: list_all_iff ascii_digit_ascii)

lemma positive_decimal_ascii:
  assumes "db_ok U" and "list_all (\<lambda>c. c < 128) a"
  shows "positive_decimal_string U a \<longleftrightarrow> positive_digit_string a"
  using decimal_ascii_digits [OF assms] decimal_number_digits [OF assms(1), of a]
  by (auto simp: positive_decimal_string_def positive_digit_string_def)

lemma positive_digit_imp_amount_check:
  assumes "db_ok U" and "positive_digit_string a" and "length a \<le> 4300"
  shows "isdigit U a" "int_of_str U a = Inr (int (digits_number a))" "0 < int (digits_number a)"
proof -
  from assms(2) have ne: "a \<noteq> []" and dig: "list_all ascii_digit a"
    and pos: "0 < digits_number a"
    by (simp_all add: positive_digit_string_def)
  from dig have asc: "list_all (\<lambda>c. c < 128) a"
    by (rule list_all_ascii_digit_ascii)
  from dig ne show "isdigit U a"
    by (simp add: isdigit_def digit_ascii_digits [OF assms(1) asc] del: not_None_eq)
  from dig have dec: "list_all (\<lambda>c. to_decimal U c \<noteq> None) a"
    by (simp add: decimal_ascii_digits [OF assms(1) asc] del: not_None_eq)
  from int_of_str_decimal [OF ne dec assms(3)] decimal_number_digits [OF assms(1) dig]
  show "int_of_str U a = Inr (int (digits_number a))"
    by simp
  from pos show "0 < int (digits_number a)"
    by simp
qed

lemma positive_digit_limit:
  assumes "db_ok U" and "positive_digit_string a" and "4300 < length a"
  shows "isdigit U a"
    "int_of_str U a =
       Inl (ValueError
             (ascii ''Exceeds the limit (4300 digits) for integer string conversion: value has '' @
              str_of_nat (length a) @
              ascii '' digits; use sys.set_int_max_str_digits() to increase the limit'')
             None)"
proof -
  from assms(2) have ne: "a \<noteq> []" and dig: "list_all ascii_digit a"
    by (simp_all add: positive_digit_string_def)
  from dig have asc: "list_all (\<lambda>c. c < 128) a"
    by (rule list_all_ascii_digit_ascii)
  from dig ne show "isdigit U a"
    by (simp add: isdigit_def digit_ascii_digits [OF assms(1) asc] del: not_None_eq)
  from dig have dec: "list_all (\<lambda>c. to_decimal U c \<noteq> None) a"
    by (simp add: decimal_ascii_digits [OF assms(1) asc] del: not_None_eq)
  from int_of_str_limit [OF dec assms(3)]
  show "int_of_str U a =
       Inl (ValueError
             (ascii ''Exceeds the limit (4300 digits) for integer string conversion: value has '' @
              str_of_nat (length a) @
              ascii '' digits; use sys.set_int_max_str_digits() to increase the limit'')
             None)" .
qed

lemma db_ok_sample: "db_ok sample_db"
  by (auto simp: db_ok_def sample_db_def split: if_splits)

lemma zero_amount:
  assumes "db_ok U"
  shows "isdigit U (ascii ''0'')" "int_of_str U (ascii ''0'') = Inr 0"
    "\<not> positive_digit_string (ascii ''0'')"
  using assms
  by (simp_all add: db_ok_def isdigit_def int_of_str_def MAX_STR_DIGITS_def
        positive_digit_string_def digits_number_def ascii_def)

lemma minus_one_amount:
  assumes "db_ok U"
  shows "\<not> isdigit U (ascii ''-1'')" "\<not> positive_digit_string (ascii ''-1'')"
  using assms
  by (simp_all add: db_ok_def isdigit_def positive_digit_string_def ascii_digit_def ascii_def)

lemma build_amount_rejected:
  assumes "fields_valid account destination cid schema flags"
      and "encode_pointer_memo cid kind schema flags (PyInt 1) = Inr p"
      and "\<not> isdigit U amount_drops \<or> int_of_str U amount_drops = Inr 0"
  shows "build_pointer_transaction U account cid kind destination schema flags amount_drops =
           Inl (ValueError (ascii ''amount_drops must be a positive integer string'') None)"
proof -
  from assms(1) have "validation_block account destination cid schema flags = Inr ()"
    by (simp add: validation_block_Inr)
  with assms(2,3) show ?thesis
    by (auto simp: build_unfold)
qed

lemma build_int_error:
  assumes "fields_valid account destination cid schema flags"
      and "encode_pointer_memo cid kind schema flags (PyInt 1) = Inr p"
      and "isdigit U amount_drops" and "int_of_str U amount_drops = Inl e"
  shows "build_pointer_transaction U account cid kind destination schema flags amount_drops =
           Inl e"
proof -
  from assms(1) have "validation_block account destination cid schema flags = Inr ()"
    by (simp add: validation_block_Inr)
  with assms(2-4) show ?thesis
    by (simp add: build_unfold)
qed

lemma build_rejects_non_decimal:
  assumes "\<not> positive_decimal_string U a"
  shows "isl (build_pointer_transaction U account cid kind destination schema flags a)"
proof (cases "build_pointer_transaction U account cid kind destination schema flags a")
  case (Inl e)
  then show ?thesis by simp
next
  case (Inr tx)
  from build_Inr [OF Inr] have "positive_decimal_string U a"
    by (auto intro: amount_check_imp_positive_decimal)
  with assms show ?thesis by simp
qed

lemma build_rejects_long:
  assumes "4300 < length a"
  shows "isl (build_pointer_transaction U account cid kind destination schema flags a)"
proof (cases "build_pointer_transaction U account cid kind destination schema flags a")
  case (Inl e)
  then show ?thesis by simp
next
  case (Inr tx)
  from build_Inr [OF Inr] obtain n where "int_of_str U a = Inr n"
    by auto
  from int_of_str_Inr(4) [OF this] assms show ?thesis by simp
qed

lemma zeros_number: "foldl (\<lambda>acc c. 10 * acc + (c - 48)) (0::nat) (replicate n 48) = 0"
  by (induction n) simp_all

lemma zeros_one_facts:
  "length (zeros_one n) = n + 1" "list_all ascii_digit (zeros_one n)"
  "digits_number (zeros_one n) = 1" "positive_digit_string (zeros_one n)"
proof -
  show "length (zeros_one n) = n + 1"
    by (simp add: zeros_one_def)
  show d: "list_all ascii_digit (zeros_one n)"
    by (simp add: zeros_one_def ascii_digit_def list_all_iff)
  show v: "digits_number (zeros_one n) = 1"
    by (simp add: zeros_one_def digits_number_def zeros_number)
  from d v show "positive_digit_string (zeros_one n)"
    by (simp add: positive_digit_string_def zeros_one_def)
qed

lemma sample_amounts:
  "positive_digit_string (ascii ''42'')"
  "\<not> positive_decimal_string sample_db [0xB2]"
  "\<not> list_all ascii_digit [0x663]"
  by (simp_all add: positive_digit_string_def digits_number_def ascii_digit_def
        positive_decimal_string_def sample_db_def ascii_def)

lemma amount_42:
  "isdigit sample_db (ascii ''42'')" "int_of_str sample_db (ascii ''42'') = Inr 42" "(0::int) < 42"
  by (simp_all add: isdigit_def int_of_str_def MAX_STR_DIGITS_def sample_db_def ascii_def)

lemma length_ascii: "length (ascii s) = length s"
  by (simp add: ascii_def)

lemma limit_message_4301:
  "ascii ''Exceeds the limit (4300 digits) for integer string conversion: value has '' @
     str_of_nat 4301 @
     ascii '' digits; use sys.set_int_max_str_digits() to increase the limit'' =
   ascii ''Exceeds the limit (4300 digits) for integer string conversion: value has 4301 digits; use sys.set_int_max_str_digits() to increase the limit''"
  by (simp add: str_of_nat.simps ascii_def)

text \<open>
  The decimal digits of \<open>str.isdigit\<close> and \<open>int\<close> are those of Unicode, not only
  \<open>0\<close> to \<open>9\<close>: the amount U+0663 (ARABIC-INDIC DIGIT THREE) is accepted and copied
  into the descriptor as it is. SUPERSCRIPT TWO passes \<open>isdigit\<close> and is refused by
  \<open>int\<close>; the digit \<open>1\<close> after 4300 zeros is refused by \<open>int\<close> for its length.
\<close>

lemma build_accepts_unicode_decimal_digit:
  "build_pointer_transaction sample_db DEFAULT_DESTINATION
      (PyStr (ascii ''bafkreiTESTCID1234567890'')) (ascii ''TASK_SUBMISSION'')
      DEFAULT_DESTINATION (PyInt 1) (PyInt 1) [0x663] =
     Inr (descriptor DEFAULT_DESTINATION DEFAULT_DESTINATION [0x663]
            ([10, 24] @ ascii ''bafkreiTESTCID1234567890'' @ [16, 1, 24, 6, 32, 1, 64, 1]))"
proof -
  have d: "isdigit sample_db [0x663]" and i: "int_of_str sample_db [0x663] = Inr 3"
    by (simp_all add: isdigit_def int_of_str_def MAX_STR_DIGITS_def sample_db_def)
  from build_valid [OF fields_valid_test memo_test_vector d i] show ?thesis
    by (simp add: length_ascii)
qed

lemma build_rejects_4301_digits:
  "build_pointer_transaction sample_db DEFAULT_DESTINATION
      (PyStr (ascii ''bafkreiTESTCID1234567890'')) (ascii ''TASK_SUBMISSION'')
      DEFAULT_DESTINATION (PyInt 1) (PyInt 1) (zeros_one 4300) =
     Inl (ValueError (ascii ''Exceeds the limit (4300 digits) for integer string conversion: value has 4301 digits; use sys.set_int_max_str_digits() to increase the limit'') None)"
  using build_int_error [OF fields_valid_test memo_test_vector
      positive_digit_limit [OF db_ok_sample zeros_one_facts(4) [of 4300]]]
  by (simp add: zeros_one_facts(1) limit_message_4301)

lemma build_rejects_superscript_two:
  "build_pointer_transaction sample_db DEFAULT_DESTINATION
      (PyStr (ascii ''bafkreiTESTCID1234567890'')) (ascii ''TASK_SUBMISSION'')
      DEFAULT_DESTINATION (PyInt 1) (PyInt 1) [0xB2] =
     Inl (ValueError (ascii ''invalid literal for int() with base 10: '' @ [39, 0xB2, 39]) None)"
proof -
  have d: "isdigit sample_db [0xB2]"
    and i: "int_of_str sample_db [0xB2] =
      Inl (ValueError (ascii ''invalid literal for int() with base 10: '' @ [39, 0xB2, 39]) None)"
    by (simp_all add: isdigit_def int_of_str_def MAX_STR_DIGITS_def sample_db_def)
  from build_int_error [OF fields_valid_test memo_test_vector d i] show ?thesis .
qed

text \<open>
  C5, as amended. \<open>build_pointer_transaction\<close> fails, whatever its other arguments
  are, for every string \<open>amount_drops\<close> that is empty, that holds a character without a
  decimal value, that writes zero, or that is longer than 4300 characters (the default
  limit of \<open>int\<close>); so among the amounts made of ASCII characters it fails for every one
  that is not a string of the digits \<open>0\<close> to \<open>9\<close> writing a positive integer. When
  \<open>amount_drops\<close> is a string of at most 4300 of the digits \<open>0\<close> to \<open>9\<close> writing a
  positive integer, the other inputs pass their checks and the memo fits, the build returns
  a descriptor that carries the amount unchanged; with more than 4300 digits it raises the
  ValueError of \<open>int\<close>. The amounts \<open>0\<close> and \<open>-1\<close> fail, with the message
  "amount_drops must be a positive integer string" when the other inputs are valid.
\<close>

theorem amount_drops_check:
  "(\<not> positive_decimal_string U amount_drops \<or> 4300 < length amount_drops \<longrightarrow>
      isl (build_pointer_transaction U account cid kind destination schema flags amount_drops)) \<and>
   (db_ok U \<and> list_all (\<lambda>c. c < 128) amount_drops \<and>
    \<not> positive_digit_string amount_drops \<longrightarrow>
      isl (build_pointer_transaction U account cid kind destination schema flags amount_drops)) \<and>
   (db_ok U \<and> positive_digit_string amount_drops \<and>
    fields_valid account destination cid schema flags \<and>
    encode_pointer_memo cid kind schema flags (PyInt 1) = Inr p \<longrightarrow>
      (length amount_drops \<le> 4300 \<and> length p \<le> 1024 \<longrightarrow>
         (\<exists>tx. build_pointer_transaction U account cid kind destination schema flags
                 amount_drops = Inr tx \<and> Amount tx = amount_drops)) \<and>
      (4300 < length amount_drops \<longrightarrow>
         build_pointer_transaction U account cid kind destination schema flags amount_drops =
           Inl (ValueError
                 (ascii ''Exceeds the limit (4300 digits) for integer string conversion: value has '' @
                  str_of_nat (length amount_drops) @
                  ascii '' digits; use sys.set_int_max_str_digits() to increase the limit'')
                 None))) \<and>
   (db_ok U \<longrightarrow>
      \<not> positive_digit_string (ascii ''0'') \<and>
      \<not> positive_digit_string (ascii ''-1'') \<and>
      isl (build_pointer_transaction U account cid kind destination schema flags (ascii ''0'')) \<and>
      isl (build_pointer_transaction U account cid kind destination schema flags (ascii ''-1''))) \<and>
   (db_ok U \<and> fields_valid account destination cid schema flags \<and>
    encode_pointer_memo cid kind schema flags (PyInt 1) = Inr p \<longrightarrow>
      build_pointer_transaction U account cid kind destination schema flags (ascii ''0'') =
        Inl (ValueError (ascii ''amount_drops must be a positive integer string'') None) \<and>
      build_pointer_transaction U account cid kind destination schema flags (ascii ''-1'') =
        Inl (ValueError (ascii ''amount_drops must be a positive integer string'') None))"
proof -
  have general: "isl (build_pointer_transaction U account cid kind destination schema flags a)"
    if "\<not> positive_decimal_string U a \<or> 4300 < length a" for a
    using that build_rejects_non_decimal [of U a] build_rejects_long [of a U] by blast
  have ascii_rejected:
    "isl (build_pointer_transaction U account cid kind destination schema flags a)"
    if h: "db_ok U \<and> list_all (\<lambda>c. c < 128) a \<and> \<not> positive_digit_string a" for a
  proof -
    from h have "\<not> positive_decimal_string U a"
      using positive_decimal_ascii [of U a] by simp
    then show ?thesis by (rule build_rejects_non_decimal)
  qed
  have accepted: "\<exists>tx. build_pointer_transaction U account cid kind destination schema flags
        amount_drops = Inr tx \<and> Amount tx = amount_drops"
    if db: "db_ok U" and pd: "positive_digit_string amount_drops"
      and fv: "fields_valid account destination cid schema flags"
      and enc: "encode_pointer_memo cid kind schema flags (PyInt 1) = Inr p"
      and la: "length amount_drops \<le> 4300" and lp: "length p \<le> 1024"
  proof -
    note c = positive_digit_imp_amount_check [OF db pd la]
    from build_valid [OF fv enc c] lp show ?thesis
      by (simp add: descriptor_def)
  qed
  have limit: "build_pointer_transaction U account cid kind destination schema flags amount_drops =
           Inl (ValueError
                 (ascii ''Exceeds the limit (4300 digits) for integer string conversion: value has '' @
                  str_of_nat (length amount_drops) @
                  ascii '' digits; use sys.set_int_max_str_digits() to increase the limit'')
                 None)"
    if db: "db_ok U" and pd: "positive_digit_string amount_drops"
      and fv: "fields_valid account destination cid schema flags"
      and enc: "encode_pointer_memo cid kind schema flags (PyInt 1) = Inr p"
      and la: "4300 < length amount_drops"
    using build_int_error [OF fv enc positive_digit_limit [OF db pd la]] .
  have small: "\<not> positive_digit_string (ascii ''0'') \<and> \<not> positive_digit_string (ascii ''-1'')"
    if "db_ok U"
    using zero_amount(3) [OF that] minus_one_amount(2) [OF that] by simp
  have small_rejected:
    "isl (build_pointer_transaction U account cid kind destination schema flags (ascii ''0'')) \<and>
     isl (build_pointer_transaction U account cid kind destination schema flags (ascii ''-1''))"
    if db: "db_ok U"
    using ascii_rejected [of "ascii ''0''"] ascii_rejected [of "ascii ''-1''"] small [OF db] db
    by (simp add: ascii_def)
  have messages:
    "build_pointer_transaction U account cid kind destination schema flags (ascii ''0'') =
        Inl (ValueError (ascii ''amount_drops must be a positive integer string'') None) \<and>
      build_pointer_transaction U account cid kind destination schema flags (ascii ''-1'') =
        Inl (ValueError (ascii ''amount_drops must be a positive integer string'') None)"
    if db: "db_ok U" and fv: "fields_valid account destination cid schema flags"
      and enc: "encode_pointer_memo cid kind schema flags (PyInt 1) = Inr p"
    using build_amount_rejected [where U = U and amount_drops = "ascii ''0''", OF fv enc]
      build_amount_rejected [where U = U and amount_drops = "ascii ''-1''", OF fv enc]
      zero_amount(2) [OF db] minus_one_amount(1) [OF db]
    by simp
  from general ascii_rejected accepted limit small small_rejected messages show ?thesis
    by blast
qed

theorem amount_drops_check_witness:
  "db_ok sample_db \<and>
   fields_valid DEFAULT_DESTINATION DEFAULT_DESTINATION
     (PyStr (ascii ''bafkreiTESTCID1234567890'')) (PyInt 1) (PyInt 1) \<and>
   encode_pointer_memo (PyStr (ascii ''bafkreiTESTCID1234567890'')) (ascii ''TASK_SUBMISSION'')
      (PyInt 1) (PyInt 1) (PyInt 1) =
     Inr ([10, 24] @ ascii ''bafkreiTESTCID1234567890'' @ [16, 1, 24, 6, 32, 1, 64, 1]) \<and>
   length ([10, 24] @ ascii ''bafkreiTESTCID1234567890'' @ [16, 1, 24, 6, 32, 1, 64, 1]) \<le> 1024 \<and>
   positive_digit_string (ascii ''42'') \<and> length (ascii ''42'') \<le> 4300 \<and>
   build_pointer_transaction sample_db DEFAULT_DESTINATION
      (PyStr (ascii ''bafkreiTESTCID1234567890'')) (ascii ''TASK_SUBMISSION'')
      DEFAULT_DESTINATION (PyInt 1) (PyInt 1) (ascii ''42'') =
     Inr (descriptor DEFAULT_DESTINATION DEFAULT_DESTINATION (ascii ''42'')
            ([10, 24] @ ascii ''bafkreiTESTCID1234567890'' @ [16, 1, 24, 6, 32, 1, 64, 1])) \<and>
   Amount (descriptor DEFAULT_DESTINATION DEFAULT_DESTINATION (ascii ''42'')
            ([10, 24] @ ascii ''bafkreiTESTCID1234567890'' @ [16, 1, 24, 6, 32, 1, 64, 1])) =
     ascii ''42'' \<and>
   \<not> positive_decimal_string sample_db [0xB2] \<and>
   isl (build_pointer_transaction sample_db DEFAULT_DESTINATION
      (PyStr (ascii ''bafkreiTESTCID1234567890'')) (ascii ''TASK_SUBMISSION'')
      DEFAULT_DESTINATION (PyInt 1) (PyInt 1) [0xB2]) \<and>
   list_all (\<lambda>c. c < 128) (ascii ''4x'') \<and> \<not> positive_digit_string (ascii ''4x'') \<and>
   isl (build_pointer_transaction sample_db DEFAULT_DESTINATION
      (PyStr (ascii ''bafkreiTESTCID1234567890'')) (ascii ''TASK_SUBMISSION'')
      DEFAULT_DESTINATION (PyInt 1) (PyInt 1) (ascii ''4x'')) \<and>
   build_pointer_transaction sample_db DEFAULT_DESTINATION
      (PyStr (ascii ''bafkreiTESTCID1234567890'')) (ascii ''TASK_SUBMISSION'')
      DEFAULT_DESTINATION (PyInt 1) (PyInt 1) (ascii ''0'') =
     Inl (ValueError (ascii ''amount_drops must be a positive integer string'') None) \<and>
   build_pointer_transaction sample_db DEFAULT_DESTINATION
      (PyStr (ascii ''bafkreiTESTCID1234567890'')) (ascii ''TASK_SUBMISSION'')
      DEFAULT_DESTINATION (PyInt 1) (PyInt 1) (ascii ''-1'') =
     Inl (ValueError (ascii ''amount_drops must be a positive integer string'') None) \<and>
   positive_digit_string (zeros_one 4300) \<and> 4300 < length (zeros_one 4300) \<and>
   build_pointer_transaction sample_db DEFAULT_DESTINATION
      (PyStr (ascii ''bafkreiTESTCID1234567890'')) (ascii ''TASK_SUBMISSION'')
      DEFAULT_DESTINATION (PyInt 1) (PyInt 1) (zeros_one 4300) =
     Inl (ValueError (ascii ''Exceeds the limit (4300 digits) for integer string conversion: value has 4301 digits; use sys.set_int_max_str_digits() to increase the limit'') None)"
proof -
  note inst = amount_drops_check [where U = sample_db
      and account = DEFAULT_DESTINATION and destination = DEFAULT_DESTINATION
      and cid = "PyStr (ascii ''bafkreiTESTCID1234567890'')"
      and kind = "ascii ''TASK_SUBMISSION''" and schema = "PyInt 1" and flags = "PyInt 1"
      and p = "[10, 24] @ ascii ''bafkreiTESTCID1234567890'' @ [16, 1, 24, 6, 32, 1, 64, 1]"]
  have x: "list_all (\<lambda>c. c < 128) (ascii ''4x'')" "\<not> positive_digit_string (ascii ''4x'')"
    by (simp_all add: positive_digit_string_def ascii_digit_def ascii_def)
  show ?thesis
    using inst [where amount_drops = "ascii ''42''"] inst [where amount_drops = "[0xB2]"]
      inst [where amount_drops = "ascii ''4x''"] inst [where amount_drops = "zeros_one 4300"]
      db_ok_sample sample_amounts x zeros_one_facts [of 4300] fields_valid_test memo_test_vector
      build_valid [OF fields_valid_test memo_test_vector amount_42]
    by (simp add: length_ascii descriptor_def limit_message_4301)
qed

text \<open>
  C5 as stated fails both ways: the digit \<open>1\<close> after 4300 zeros is a string of decimal
  digits that writes the positive integer one, and the build fails on it with otherwise
  valid inputs; the one-character amount U+0663 is not a string of the digits \<open>0\<close> to
  \<open>9\<close>, and the build returns a descriptor that carries it.
\<close>

theorem amount_drops_check_counterexample:
  "fields_valid DEFAULT_DESTINATION DEFAULT_DESTINATION
     (PyStr (ascii ''bafkreiTESTCID1234567890'')) (PyInt 1) (PyInt 1) \<and>
   encode_pointer_memo (PyStr (ascii ''bafkreiTESTCID1234567890'')) (ascii ''TASK_SUBMISSION'')
      (PyInt 1) (PyInt 1) (PyInt 1) =
     Inr ([10, 24] @ ascii ''bafkreiTESTCID1234567890'' @ [16, 1, 24, 6, 32, 1, 64, 1]) \<and>
   length (zeros_one 4300) = 4301 \<and>
   list_all ascii_digit (zeros_one 4300) \<and>
   digits_number (zeros_one 4300) = 1 \<and>
   build_pointer_transaction sample_db DEFAULT_DESTINATION
      (PyStr (ascii ''bafkreiTESTCID1234567890'')) (ascii ''TASK_SUBMISSION'')
      DEFAULT_DESTINATION (PyInt 1) (PyInt 1) (zeros_one 4300) =
     Inl (ValueError (ascii ''Exceeds the limit (4300 digits) for integer string conversion: value has 4301 digits; use sys.set_int_max_str_digits() to increase the limit'') None) \<and>
   \<not> list_all ascii_digit [0x663] \<and>
   build_pointer_transaction sample_db DEFAULT_DESTINATION
      (PyStr (ascii ''bafkreiTESTCID1234567890'')) (ascii ''TASK_SUBMISSION'')
      DEFAULT_DESTINATION (PyInt 1) (PyInt 1) [0x663] =
     Inr (descriptor DEFAULT_DESTINATION DEFAULT_DESTINATION [0x663]
            ([10, 24] @ ascii ''bafkreiTESTCID1234567890'' @ [16, 1, 24, 6, 32, 1, 64, 1]))"
  using fields_valid_test memo_test_vector zeros_one_facts [of 4300] sample_amounts(3)
    build_rejects_4301_digits build_accepts_unicode_decimal_digit
  by simp

end
